theory Spec2Isabelle
  imports Complex_Main
begin

section \<open>JavaScript numbers\<close>

text \<open>
  A JavaScript Number is a binary64 value. The model keeps the three special values
  apart and reads a finite double as the real number it denotes:
  \<^item> \<open>NaN\<close>, \<open>PInf\<close> (Infinity) and \<open>NInf\<close> (-Infinity) behave as IEEE 754 says
    (a comparison with \<open>NaN\<close> is false, \<open>Infinity - Infinity\<close> is \<open>NaN\<close>, ...);
  \<^item> arithmetic on finite values is exact real arithmetic: rounding to 53 bits and
    overflow to an infinity are not modelled, and a decimal literal such as \<open>0.72\<close>
    stands for the real 0.72;
  \<^item> the real 0 stands for both zeros (the program never divides by a computed
    zero, the only place where the sign of a zero could be seen).

  Because of the second point, the theorems on the claims do not state the digits of
  a computed finite value. Where a result depends on the rounding (the distance of
  two distinct points, the minutes of a degree value, a colour channel between its
  two ends) the statement names the Number that the code computes and says what holds
  of it whatever its value; concrete digits appear only at inputs where every step
  of the computation is exact in binary64 as well.
\<close>

datatype number = NaN | PInf | NInf | Fin real

fun is_finite :: "number \<Rightarrow> bool" where
  "is_finite (Fin a) = True"
| "is_finite _ = False"

fun is_negative :: "number \<Rightarrow> bool" where
  "is_negative NInf = True"
| "is_negative (Fin a) = (a < 0)"
| "is_negative _ = False"

fun is_zero :: "number \<Rightarrow> bool" where
  "is_zero (Fin a) = (a = 0)"
| "is_zero _ = False"

text \<open>Unary minus.\<close>

fun n_neg :: "number \<Rightarrow> number" where
  "n_neg NaN = NaN"
| "n_neg PInf = NInf"
| "n_neg NInf = PInf"
| "n_neg (Fin a) = Fin (- a)"

text \<open>The operator \<open>+\<close> on two Numbers.\<close>

fun n_add :: "number \<Rightarrow> number \<Rightarrow> number" where
  "n_add (Fin a) (Fin b) = Fin (a + b)"
| "n_add NaN y = NaN"
| "n_add x NaN = NaN"
| "n_add PInf NInf = NaN"
| "n_add NInf PInf = NaN"
| "n_add PInf y = PInf"
| "n_add NInf y = NInf"
| "n_add (Fin a) y = y"

text \<open>The operator \<open>-\<close>: \<open>x - y\<close> is \<open>x + (-y)\<close> in IEEE 754.\<close>

definition n_sub :: "number \<Rightarrow> number \<Rightarrow> number" where
  "n_sub x y = n_add x (n_neg y)"

text \<open>The operator \<open>*\<close>: an infinity times zero is \<open>NaN\<close>, otherwise the signs multiply.\<close>

fun n_mul :: "number \<Rightarrow> number \<Rightarrow> number" where
  "n_mul (Fin a) (Fin b) = Fin (a * b)"
| "n_mul NaN y = NaN"
| "n_mul x NaN = NaN"
| "n_mul x y =
     (if is_zero x \<or> is_zero y then NaN
      else if is_negative x = is_negative y then PInf else NInf)"

text \<open>
  The operator \<open>/\<close>. A finite value over zero is an infinity of the dividend's sign
  (the divisor read as +0), zero over zero and infinity over infinity are \<open>NaN\<close>.
\<close>

fun n_div :: "number \<Rightarrow> number \<Rightarrow> number" where
  "n_div (Fin a) (Fin b) =
     (if b = 0 then (if a = 0 then NaN else if 0 < a then PInf else NInf)
      else Fin (a / b))"
| "n_div NaN y = NaN"
| "n_div x NaN = NaN"
| "n_div (Fin a) y = Fin 0"
| "n_div x (Fin b) = (if is_negative x = (b < 0) then PInf else NInf)"
| "n_div x y = NaN"

text \<open>The comparisons \<open><\<close>, \<open><=\<close>, \<open>>\<close>, \<open>>=\<close>: false as soon as one side is \<open>NaN\<close>.\<close>

fun n_lt :: "number \<Rightarrow> number \<Rightarrow> bool" where
  "n_lt (Fin a) (Fin b) = (a < b)"
| "n_lt NaN y = False"
| "n_lt x NaN = False"
| "n_lt x PInf = (x \<noteq> PInf)"
| "n_lt NInf y = (y \<noteq> NInf)"
| "n_lt x y = False"

fun n_le :: "number \<Rightarrow> number \<Rightarrow> bool" where
  "n_le (Fin a) (Fin b) = (a \<le> b)"
| "n_le NaN y = False"
| "n_le x NaN = False"
| "n_le x PInf = True"
| "n_le NInf y = True"
| "n_le x y = False"

definition n_gt :: "number \<Rightarrow> number \<Rightarrow> bool" where
  "n_gt x y = n_lt y x"

definition n_ge :: "number \<Rightarrow> number \<Rightarrow> bool" where
  "n_ge x y = n_le y x"


subsection \<open>The functions of \<open>Math\<close> that the program calls\<close>

text \<open>\<open>Math.min\<close> and \<open>Math.max\<close> of two arguments: \<open>NaN\<close> if either is.\<close>

definition Math_min :: "number \<Rightarrow> number \<Rightarrow> number" where
  "Math_min x y = (if x = NaN \<or> y = NaN then NaN else if n_le x y then x else y)"

definition Math_max :: "number \<Rightarrow> number \<Rightarrow> number" where
  "Math_max x y = (if x = NaN \<or> y = NaN then NaN else if n_le x y then y else x)"

fun Math_abs :: "number \<Rightarrow> number" where
  "Math_abs NaN = NaN"
| "Math_abs PInf = PInf"
| "Math_abs NInf = PInf"
| "Math_abs (Fin a) = Fin \<bar>a\<bar>"

fun Math_floor :: "number \<Rightarrow> number" where
  "Math_floor (Fin a) = Fin (of_int \<lfloor>a\<rfloor>)"
| "Math_floor x = x"

text \<open>\<open>Math.round\<close>: the nearest integer, a tie going up (towards +Infinity).\<close>

fun Math_round :: "number \<Rightarrow> number" where
  "Math_round (Fin a) = Fin (of_int \<lfloor>a + 1 / 2\<rfloor>)"
| "Math_round x = x"

fun Math_sqrt :: "number \<Rightarrow> number" where
  "Math_sqrt NaN = NaN"
| "Math_sqrt PInf = PInf"
| "Math_sqrt NInf = NaN"
| "Math_sqrt (Fin a) = (if a < 0 then NaN else Fin (sqrt a))"

fun Math_sin :: "number \<Rightarrow> number" where
  "Math_sin (Fin a) = Fin (sin a)"
| "Math_sin x = NaN"

fun Math_cos :: "number \<Rightarrow> number" where
  "Math_cos (Fin a) = Fin (cos a)"
| "Math_cos x = NaN"

definition Math_PI :: number where
  "Math_PI = Fin pi"

text \<open>
  \<open>Math.atan2(y, x)\<close>: the angle of the point \<open>(x, y)\<close>, in \<open>(-pi, pi]\<close>; the cases
  with an infinity follow the table of ECMA-262.
\<close>

definition atan2_real :: "real \<Rightarrow> real \<Rightarrow> real" where
  "atan2_real y x =
     (if 0 < x then arctan (y / x)
      else if x < 0 then (if 0 \<le> y then arctan (y / x) + pi else arctan (y / x) - pi)
      else if 0 < y then pi / 2
      else if y < 0 then - (pi / 2)
      else 0)"

fun Math_atan2 :: "number \<Rightarrow> number \<Rightarrow> number" where
  "Math_atan2 (Fin b) (Fin a) = Fin (atan2_real b a)"
| "Math_atan2 NaN x = NaN"
| "Math_atan2 y NaN = NaN"
| "Math_atan2 PInf PInf = Fin (pi / 4)"
| "Math_atan2 PInf NInf = Fin (3 * pi / 4)"
| "Math_atan2 NInf PInf = Fin (- (pi / 4))"
| "Math_atan2 NInf NInf = Fin (- (3 * pi / 4))"
| "Math_atan2 PInf (Fin a) = Fin (pi / 2)"
| "Math_atan2 NInf (Fin a) = Fin (- (pi / 2))"
| "Math_atan2 (Fin b) PInf = Fin 0"
| "Math_atan2 (Fin b) NInf = (if b < 0 then Fin (- pi) else Fin pi)"

section \<open>Geo math\<close>

record latlng =
  lat :: number
  lng :: number

definition finite_latlng :: "latlng \<Rightarrow> bool" where
  "finite_latlng p = (is_finite (lat p) \<and> is_finite (lng p))"

definition FOUND_RADIUS_METERS :: number where
  "FOUND_RADIUS_METERS = Fin 20"

definition HOT_RADIUS_METERS :: number where
  "HOT_RADIUS_METERS = Fin 1200"

text \<open>The local arrow function \<open>toRad\<close> of \<open>distanceMeters\<close>: \<open>(d * Math.PI) / 180\<close>.\<close>

definition toRad :: "number \<Rightarrow> number" where
  "toRad d = n_div (n_mul d Math_PI) (Fin 180)"

text \<open>\<open>distanceMeters(a, b)\<close>: the haversine distance in metres, line by line.\<close>

definition distanceMeters :: "latlng \<Rightarrow> latlng \<Rightarrow> number" where
  "distanceMeters a b =
     (let R = Fin 6371000;
          dLat = toRad (n_sub (lat b) (lat a));
          dLon = toRad (n_sub (lng b) (lng a));
          lat1 = toRad (lat a);
          lat2 = toRad (lat b);
          sinDlat = Math_sin (n_div dLat (Fin 2));
          sinDlon = Math_sin (n_div dLon (Fin 2));
          aa = n_add (n_mul sinDlat sinDlat)
                 (n_mul (n_mul (n_mul (Math_cos lat1) (Math_cos lat2)) sinDlon) sinDlon);
          c = n_mul (Fin 2) (Math_atan2 (Math_sqrt aa) (Math_sqrt (n_sub (Fin 1) aa)))
      in n_mul R c)"

text \<open>
  The heat of a guess at distance \<open>d\<close> (the constants \<open>raw\<close> and \<open>heat\<close> of
  \<open>onMapClick\<close>): 1 at the target, 0 from \<open>HOT_RADIUS_METERS\<close> on.
\<close>

definition heat_of :: "number \<Rightarrow> number" where
  "heat_of d =
     (let raw = n_sub (Fin 1) (n_div (Math_min d HOT_RADIUS_METERS) HOT_RADIUS_METERS)
      in Math_max (Fin 0) (Math_min (Fin 1) raw))"

text \<open>The clamp to \<open>[0, 1]\<close> that the specification calls \<open>clamp01\<close>.\<close>

definition clamp01 :: "number \<Rightarrow> number" where
  "clamp01 x = Math_max (Fin 0) (Math_min (Fin 1) x)"


section \<open>Strings made from numbers\<close>

text \<open>
  A JavaScript string is a sequence of UTF-16 code units; every code unit the program
  writes is below 256 and is one \<open>char\<close> here (the degree sign is \<open>CHR 0xB0\<close>).

  The text of a Number is modelled where the real value determines it: the special
  values, and the integers below \<open>2^53\<close> in magnitude, which print as their decimal
  numeral. For any other finite Number the digits that \<open>ToString\<close> prints depend on
  the binary64 representation; there the model gives \<open>None\<close>, and a template literal
  with such a piece is \<open>None\<close> as a whole.
\<close>

type_synonym jstring = "string option"

fun template :: "jstring list \<Rightarrow> jstring" where
  "template [] = Some []"
| "template (None # ps) = None"
| "template (Some s # ps) = (case template ps of None \<Rightarrow> None | Some r \<Rightarrow> Some (s @ r))"

definition digit_char :: "nat \<Rightarrow> char" where
  "digit_char n = ''0123456789'' ! (n mod 10)"

fun decimal :: "nat \<Rightarrow> string" where
  "decimal n = (if n < 10 then [digit_char n] else decimal (n div 10) @ [digit_char (n mod 10)])"

declare decimal.simps [simp del]

fun ToString :: "number \<Rightarrow> jstring" where
  "ToString NaN = Some ''NaN''"
| "ToString PInf = Some ''Infinity''"
| "ToString NInf = Some ''-Infinity''"
| "ToString (Fin x) =
     (if x = of_int \<lfloor>x\<rfloor> \<and> \<bar>x\<bar> < 2 ^ 53
      then Some ((if x < 0 then ''-'' else []) @ decimal (nat \<lfloor>\<bar>x\<bar>\<rfloor>))
      else None)"

text \<open>
  \<open>Number.prototype.toFixed(f)\<close>, as ECMA-262 defines it: the integer \<open>n\<close> nearest to
  \<open>x * 10^f\<close> (the larger one at a tie), printed with a point before its last \<open>f\<close>
  digits and zeros added on the left up to \<open>f + 1\<close> digits; a value that is not finite,
  or is \<open>10^21\<close> or more, prints as \<open>ToString\<close> does.
\<close>

fun toFixed :: "nat \<Rightarrow> number \<Rightarrow> jstring" where
  "toFixed f (Fin x) =
     (if 10 ^ 21 \<le> \<bar>x\<bar> then ToString (Fin x)
      else let s = (if x < 0 then ''-'' else []);
               n = nat \<lfloor>\<bar>x\<bar> * 10 ^ f + 1 / 2\<rfloor>;
               m = decimal n;
               m' = (if length m \<le> f then replicate (f + 1 - length m) (CHR ''0'') @ m else m);
               k = length m'
           in if f = 0 then Some (s @ m')
              else Some (s @ take (k - f) m' @ ''.'' @ drop (k - f) m'))"
| "toFixed f x = ToString x"

text \<open>\<open>formatDeg(latOrLng)\<close>.\<close>

definition formatDeg :: "number \<Rightarrow> jstring" where
  "formatDeg latOrLng =
     (let negative = n_lt latOrLng (Fin 0);
          abs = Math_abs latOrLng;
          deg = Math_floor abs;
          minutes = n_mul (n_sub abs deg) (Fin 60)
      in template [ToString deg, Some [CHR 0xB0, CHR '' ''], toFixed 3 minutes, Some [CHR 0x27],
                   Some (if negative then ''W/S'' else [])])"

text \<open>\<open>lerpColor(t)\<close>: from the cold colour \<open>#2c98f0\<close> to the hot colour \<open>#e24b4b\<close>.\<close>

record rgb =
  r :: number
  g :: number
  b :: number

definition cold :: rgb where
  "cold = \<lparr>r = Fin 0x2c, g = Fin 0x98, b = Fin 0xf0\<rparr>"

definition hot :: rgb where
  "hot = \<lparr>r = Fin 0xe2, g = Fin 0x4b, b = Fin 0x4b\<rparr>"

definition lerpColor :: "number \<Rightarrow> jstring" where
  "lerpColor t =
     (let r = Math_round (n_add (r cold) (n_mul (n_sub (r hot) (r cold)) t));
          g = Math_round (n_add (g cold) (n_mul (n_sub (g hot) (g cold)) t));
          b = Math_round (n_add (b cold) (n_mul (n_sub (b hot) (b cold)) t))
      in template [Some ''rgb('', ToString r, Some '','', ToString g, Some '','', ToString b,
                   Some '')''])"

text \<open>
  The specification's formula for one channel \<open>c\<close> of the colour at factor \<open>t\<close>:
  \<open>cold + (hot - cold) * t\<close>, rounded to the nearest integer.
\<close>

definition channel :: "(rgb \<Rightarrow> number) \<Rightarrow> number \<Rightarrow> number" where
  "channel c t = Math_round (n_add (c cold) (n_mul (n_sub (c hot) (c cold)) t))"

section \<open>JavaScript values\<close>

text \<open>
  What a caller may pass where a Number is expected. \<open>JObject\<close> stands for any
  object or array; \<open>typeof null\<close> is \<open>"object"\<close> as well.
\<close>

datatype jsval = JUndefined | JNull | JBool bool | JNum number | JStr string | JObject

fun typeof :: "jsval \<Rightarrow> string" where
  "typeof JUndefined = ''undefined''"
| "typeof JNull = ''object''"
| "typeof (JBool v) = ''boolean''"
| "typeof (JNum v) = ''number''"
| "typeof (JStr v) = ''string''"
| "typeof JObject = ''object''"

text \<open>Truthiness of a Number (the left operand of \<open>||\<close>): 0 and \<open>NaN\<close> are falsy.\<close>

fun truthy :: "number \<Rightarrow> bool" where
  "truthy NaN = False"
| "truthy (Fin a) = (a \<noteq> 0)"
| "truthy x = True"

section \<open>The map\<close>

text \<open>
  The Leaflet map is an external collaborator; the module imports \<open>leaflet@1.9.4\<close>.
  The model records what the program asks of it: the layers added and not yet removed,
  the open popup, and the view. A layer is an object, created by \<open>L.circleMarker\<close>,
  \<open>L.circle\<close>, \<open>L.marker\<close> or \<open>L.tileLayer\<close>; its identity is the number of layers
  created before it, and \<open>removeLayer\<close> removes the layer of that identity.

  Three behaviours of that version of the library are part of the model, because the
  program reaches them with values it accepts:
  \<^item> a position with a \<open>NaN\<close> component is refused: the constructor \<open>LatLng\<close>, which
    \<open>L.circleMarker\<close>, \<open>L.circle\<close>, \<open>L.marker\<close> and \<open>setView\<close> apply to their position,
    throws \<open>Invalid LatLng object\<close>;
    \<open>L.circleMarker\<close> does not look at its radius;
  \<^item> \<open>L.circle\<close> throws \<open>Circle radius cannot be NaN\<close> when its radius is \<open>NaN\<close>;
  \<^item> \<open>setView\<close> rounds the zoom to an integer and limits it to the zoom levels of the
    map, 0 to the \<open>maxZoom\<close> 19 of the tile layer.
\<close>

datatype js_error = TypeError | InvalidLatLng | CircleRadiusNaN

datatype outcome = Returned | Threw js_error

record circleMarker_options =
  cm_radius :: number
  cm_fillColor :: jstring
  cm_color :: string
  cm_weight :: number
  cm_fillOpacity :: number

record circle_options =
  c_radius :: number
  c_color :: jstring
  c_weight :: number
  c_opacity :: number
  c_fill :: bool

datatype shape =
    TileLayer
  | CircleMarker latlng circleMarker_options
  | Circle latlng circle_options
  | Marker latlng

record layer =
  ident :: nat
  shape :: shape

record popup =
  p_latlng :: latlng
  p_content :: jstring

record leaflet_map =
  layers :: "layer list"
  open_popup :: "popup option"
  center :: latlng
  zoom :: number

text \<open>The test of the constructor \<open>LatLng\<close>: \<open>isNaN(lat) || isNaN(lng)\<close>.\<close>

definition invalid_LatLng :: "latlng \<Rightarrow> bool" where
  "invalid_LatLng p = (lat p = NaN \<or> lng p = NaN)"

definition addTo :: "layer \<Rightarrow> leaflet_map \<Rightarrow> leaflet_map" where
  "addTo l m = m\<lparr>layers := layers m @ [l]\<rparr>"

definition removeLayer :: "layer \<Rightarrow> leaflet_map \<Rightarrow> leaflet_map" where
  "removeLayer l m = m\<lparr>layers := filter (\<lambda>x. ident x \<noteq> ident l) (layers m)\<rparr>"

definition openOn :: "popup \<Rightarrow> leaflet_map \<Rightarrow> leaflet_map" where
  "openOn p m = m\<lparr>open_popup := Some p\<rparr>"

definition MAX_ZOOM :: number where
  "MAX_ZOOM = Fin 19"

definition limitZoom :: "number \<Rightarrow> number" where
  "limitZoom z = Math_max (Fin 0) (Math_min MAX_ZOOM (Math_round z))"

definition setView :: "latlng \<Rightarrow> number \<Rightarrow> leaflet_map \<Rightarrow> js_error + leaflet_map" where
  "setView c z m =
     (if invalid_LatLng c then Inl InvalidLatLng
      else Inr (m\<lparr>center := c, zoom := limitZoom z\<rparr>))"

definition getZoom :: "leaflet_map \<Rightarrow> number" where
  "getZoom m = zoom m"

section \<open>The game\<close>

text \<open>
  The module's variables: \<open>TARGET\<close>, \<open>START_OFFSET\<close>, \<open>lastMarker\<close>, \<open>lastCircle\<close>,
  \<open>prevDistance\<close> (\<open>None\<close> is \<open>null\<close>) and \<open>map\<close>; the warnings written with
  \<open>console.warn\<close>; and the number of layers created so far.
\<close>

record game =
  TARGET :: latlng
  START_OFFSET :: latlng
  lastMarker :: "layer option"
  lastCircle :: "layer option"
  prevDistance :: "number option"
  mapL :: leaflet_map
  console :: "string list"
  objects :: nat

definition START_ZOOM :: number where
  "START_ZOOM = Fin 7"

text \<open>
  The state once the module is loaded. \<open>randomOffset()\<close> draws the offset of the
  first view; it is a parameter here.
\<close>

definition init :: "latlng \<Rightarrow> game" where
  "init offset =
     (let target = \<lparr>lat = n_add (Fin 32) (n_div (Fin 42.568) (Fin 60)),
                     lng = n_add (Fin 35) (n_div (Fin 6.469) (Fin 60))\<rparr>
      in \<lparr>TARGET = target,
          START_OFFSET = offset,
          lastMarker = None,
          lastCircle = None,
          prevDistance = None,
          mapL = \<lparr>layers = [\<lparr>ident = 0, shape = TileLayer\<rparr>],
                   open_popup = None,
                   center = \<lparr>lat = n_add (lat target) (lat offset),
                              lng = n_add (lng target) (lng offset)\<rparr>,
                   zoom = START_ZOOM\<rparr>,
          console = [],
          objects = 1\<rparr>)"

subsection \<open>\<open>onMapClick\<close>\<close>

text \<open>
  The choice of \<open>title\<close> in \<open>onMapClick\<close>, from the distance \<open>d\<close> of this click and
  the value of \<open>prevDistance\<close> when the handler starts.
\<close>

definition title_of :: "number \<Rightarrow> number option \<Rightarrow> string" where
  "title_of d prev =
     (let heat = heat_of d in
      if n_le d FOUND_RADIUS_METERS then ''FOUND!''
      else case prev of
        None \<Rightarrow>
          (if n_ge heat (Fin 0.72) then ''Very Hot''
           else if n_ge heat (Fin 0.36) then ''Warm''
           else ''Cold'')
      | Some prev_d \<Rightarrow>
          (let EPS = Fin 0.5 in
           if n_lt d (n_sub prev_d EPS) then ''Warmer''
           else if n_gt d (n_add prev_d EPS) then ''Colder''
           else ''Same''))"

text \<open>The popup's \<open>body\<close>: the target's coordinates within the reveal radius, else empty.\<close>

definition body_of :: "number \<Rightarrow> latlng \<Rightarrow> jstring" where
  "body_of d target =
     (if n_le d FOUND_RADIUS_METERS
      then template [Some ''Coordinates: N '', formatDeg (lat target), Some ''  E '',
                     formatDeg (lng target)]
      else Some [])"

text \<open>The argument of \<open>setContent\<close>: a non-empty \<open>body\<close> is truthy.\<close>

definition content_of :: "string \<Rightarrow> jstring \<Rightarrow> jstring" where
  \<open>content_of title body =
     (case body of
        None \<Rightarrow> None
      | Some text \<Rightarrow>
          if text \<noteq> []
          then template [Some ''<strong>'', Some title,
                 Some ''</strong><div style="margin-top:6px;white-space:pre-line">'',
                 Some text, Some ''</div>'']
          else template [Some ''<strong>'', Some title, Some ''</strong>''])\<close>

text \<open>
  \<open>onMapClick(e)\<close>, given \<open>e.latlng\<close>. The handler has three ways out:
  \<^item> \<open>L.circleMarker(clicked, ...)\<close> throws when \<open>clicked\<close> has a \<open>NaN\<close> component; the
    old marker and ring are off the map by then and nothing else has changed;
  \<^item> \<open>L.circle(clicked, {radius: ringRadius, ...})\<close> throws when \<open>ringRadius\<close> is \<open>NaN\<close>,
    which is when \<open>d\<close> is; the new marker is drawn and assigned by then, while
    \<open>lastCircle\<close>, the popup and \<open>prevDistance\<close> are as they were;
  \<^item> otherwise it runs to its last line.
\<close>

definition onMapClick :: "latlng \<Rightarrow> game \<Rightarrow> outcome \<times> game" where
  "onMapClick e_latlng s =
     (let clicked = \<lparr>lat = lat e_latlng, lng = lng e_latlng\<rparr>;
          d = distanceMeters clicked (TARGET s);
          m1 = (case lastMarker s of Some l \<Rightarrow> removeLayer l (mapL s) | None \<Rightarrow> mapL s);
          m2 = (case lastCircle s of Some l \<Rightarrow> removeLayer l m1 | None \<Rightarrow> m1);
          heat = heat_of d;
          title = title_of d (prevDistance s);
          color = lerpColor heat;
          markerRadius = n_add (Fin 6) (Math_round (n_mul (Fin 6) heat));
          ringRadius = Math_min (Math_max (Fin 20) d) (Fin 300)
      in if invalid_LatLng clicked then (Threw InvalidLatLng, s\<lparr>mapL := m2\<rparr>)
         else
           let marker = \<lparr>ident = objects s,
                         shape = CircleMarker clicked
                           \<lparr>cm_radius = markerRadius, cm_fillColor = color, cm_color = ''#fff'',
                            cm_weight = Fin 2, cm_fillOpacity = Fin 0.95\<rparr>\<rparr>;
               m3 = addTo marker m2
           in if ringRadius = NaN
              then (Threw CircleRadiusNaN,
                    s\<lparr>lastMarker := Some marker, mapL := m3, objects := objects s + 1\<rparr>)
              else
                let circle = \<lparr>ident = objects s + 1,
                              shape = Circle clicked
                                \<lparr>c_radius = ringRadius, c_color = color, c_weight = Fin 1.4,
                                 c_opacity = n_add (Fin 0.35) (n_mul (Fin 0.5) heat),
                                 c_fill = False\<rparr>\<rparr>;
                    m4 = addTo circle m3;
                    body = body_of d (TARGET s);
                    m5 = openOn \<lparr>p_latlng = clicked, p_content = content_of title body\<rparr> m4
                in (Returned,
                    s\<lparr>lastMarker := Some marker, lastCircle := Some circle, mapL := m5,
                      prevDistance := Some d, objects := objects s + 2\<rparr>))"

subsection \<open>\<open>setTarget\<close>\<close>

text \<open>
  The third argument of \<open>setTarget\<close>. The fields the function reads are \<open>recenter\<close>
  (compared with \<open>true\<close> and with \<open>"center"\<close>), \<open>zoom\<close> (\<open>None\<close> when absent) and
  \<open>debug\<close> (its truthiness). A missing argument takes the default \<open>{}\<close>; \<open>null\<close> does
  not, and reading a property of \<open>null\<close> throws a TypeError.
\<close>

datatype recenter_value = RecenterTrue | RecenterCenter | RecenterOther

record options =
  recenter :: recenter_value
  opt_zoom :: "number option"
  debug :: bool

datatype opts_arg = OptsMissing | OptsNull | OptsObject options

definition default_opts :: options where
  "default_opts = \<lparr>recenter = RecenterOther, opt_zoom = None, debug = False\<rparr>"

text \<open>\<open>opts.zoom || map.getZoom()\<close>.\<close>

definition zoom_or :: "number option \<Rightarrow> leaflet_map \<Rightarrow> number" where
  "zoom_or z m = (case z of Some v \<Rightarrow> (if truthy v then v else getZoom m) | None \<Rightarrow> getZoom m)"

text \<open>
  The two \<open>map.setView\<close> calls of \<open>setTarget\<close> (\<open>opts.recenter === true\<close> and
  \<open>opts.recenter === "center"\<close>).
\<close>

definition recenter_view :: "number \<Rightarrow> number \<Rightarrow> options \<Rightarrow> game \<Rightarrow> js_error + game" where
  "recenter_view la lo opts s =
     (if recenter opts = RecenterTrue
      then (case setView \<lparr>lat = n_add la (lat (START_OFFSET s)),
                           lng = n_add lo (lng (START_OFFSET s))\<rparr>
                   (zoom_or (opt_zoom opts) (mapL s)) (mapL s) of
              Inl err \<Rightarrow> Inl err
            | Inr m \<Rightarrow> Inr (s\<lparr>mapL := m\<rparr>))
      else if recenter opts = RecenterCenter
      then (case setView \<lparr>lat = la, lng = lo\<rparr> (zoom_or (opt_zoom opts) (mapL s)) (mapL s) of
              Inl err \<Rightarrow> Inl err
            | Inr m \<Rightarrow> Inr (s\<lparr>mapL := m\<rparr>))
      else Inr s)"

text \<open>
  The debug marker: \<open>L.marker([lat, lng]).addTo(map).bindPopup("Target set").openPopup()\<close>.
\<close>

definition debug_marker :: "number \<Rightarrow> number \<Rightarrow> game \<Rightarrow> js_error + game" where
  "debug_marker la lo s =
     (if invalid_LatLng \<lparr>lat = la, lng = lo\<rparr> then Inl InvalidLatLng
      else Inr (s\<lparr>mapL := openOn \<lparr>p_latlng = \<lparr>lat = la, lng = lo\<rparr>,
                                   p_content = Some ''Target set''\<rparr>
                            (addTo \<lparr>ident = objects s, shape = Marker \<lparr>lat = la, lng = lo\<rparr>\<rparr>
                               (mapL s)),
                 objects := objects s + 1\<rparr>))"

text \<open>
  The part of \<open>setTarget\<close> after the clearing of the state, for an object \<open>opts\<close>. A
  throw leaves the state as the statements before it made it.
\<close>

definition recenter_and_debug :: "number \<Rightarrow> number \<Rightarrow> options \<Rightarrow> game \<Rightarrow> outcome \<times> game" where
  "recenter_and_debug la lo opts s =
     (case recenter_view la lo opts s of
        Inl err \<Rightarrow> (Threw err, s)
      | Inr s1 \<Rightarrow>
          if debug opts
          then (case debug_marker la lo s1 of
                  Inl err \<Rightarrow> (Threw err, s1)
                | Inr s2 \<Rightarrow> (Returned, s2))
          else (Returned, s1))"

text \<open>\<open>setTarget(lat, lng, opts)\<close>.\<close>

definition setTarget :: "jsval \<Rightarrow> jsval \<Rightarrow> opts_arg \<Rightarrow> game \<Rightarrow> outcome \<times> game" where
  "setTarget lat_arg lng_arg opts_arg s =
     (if typeof lat_arg \<noteq> ''number'' \<or> typeof lng_arg \<noteq> ''number''
      then (Returned, s\<lparr>console := console s @ [''setTarget requires numeric lat and lng'']\<rparr>)
      else case (lat_arg, lng_arg) of
        (JNum la, JNum lo) \<Rightarrow>
          (let s1 = s\<lparr>TARGET := \<lparr>lat = la, lng = lo\<rparr>\<rparr>;
               s2 = (case lastMarker s1 of
                       Some l \<Rightarrow> s1\<lparr>mapL := removeLayer l (mapL s1), lastMarker := None\<rparr>
                     | None \<Rightarrow> s1);
               s3 = (case lastCircle s2 of
                       Some l \<Rightarrow> s2\<lparr>mapL := removeLayer l (mapL s2), lastCircle := None\<rparr>
                     | None \<Rightarrow> s2);
               s4 = s3\<lparr>prevDistance := None\<rparr>
           in case opts_arg of
                OptsMissing \<Rightarrow> recenter_and_debug la lo default_opts s4
              | OptsObject opts \<Rightarrow> recenter_and_debug la lo opts s4
              | OptsNull \<Rightarrow> (Threw TypeError, s4))
      | _ \<Rightarrow> (Returned, s))"

section \<open>Observations used in the statements\<close>

text \<open>
  The map after the two \<open>removeLayer\<close> calls of \<open>setTarget\<close> (\<open>if (lastMarker) ...\<close>,
  \<open>if (lastCircle) ...\<close>).
\<close>

definition cleared_map :: "game \<Rightarrow> leaflet_map" where
  "cleared_map s =
     (let m1 = (case lastMarker s of Some l \<Rightarrow> removeLayer l (mapL s) | None \<Rightarrow> mapL s)
      in case lastCircle s of Some l \<Rightarrow> removeLayer l m1 | None \<Rightarrow> m1)"

text \<open>The colour option that a drawn layer was created with.\<close>

fun layer_color :: "layer \<Rightarrow> jstring" where
  "layer_color l =
     (case shape l of
        CircleMarker p opts \<Rightarrow> cm_fillColor opts
      | Circle p opts \<Rightarrow> c_color opts
      | _ \<Rightarrow> None)"

section \<open>The heat of a guess\<close>

lemma heat_of_Fin:
  "0 \<le> x \<Longrightarrow> heat_of (Fin x) = Fin (max 0 (min 1 (1 - min x 1200 / 1200)))"
  by (simp add: heat_of_def HOT_RADIUS_METERS_def Math_min_def Math_max_def n_sub_def Let_def min_def max_def)

lemma heat_of_PInf: "heat_of PInf = Fin 0"
  by (simp add: heat_of_def HOT_RADIUS_METERS_def Math_min_def Math_max_def n_sub_def Let_def)

lemma heat_of_clamp01:
  "heat_of d = clamp01 (n_sub (Fin 1) (n_div (Math_min d (Fin 1200)) (Fin 1200)))"
  by (simp add: heat_of_def clamp01_def HOT_RADIUS_METERS_def Let_def)

lemma heat_of_zero: "heat_of (Fin 0) = Fin 1"
  by (simp add: heat_of_Fin)

lemma heat_of_far: "n_ge d HOT_RADIUS_METERS \<Longrightarrow> heat_of d = Fin 0"
  by (cases d) (simp_all add: n_ge_def HOT_RADIUS_METERS_def heat_of_PInf heat_of_Fin)

lemma heat_of_mono:
  "n_le (Fin 0) d \<Longrightarrow> n_le d d' \<Longrightarrow> n_le (heat_of d') (heat_of d)"
  by (cases d; cases d'; simp add: heat_of_PInf heat_of_Fin)

text \<open>
  Claim C3. For every distance \<open>d\<close>, the heat is
  \<open>clamp01(1 - min(d, 1200) / 1200)\<close>; it is 1 at \<open>d = 0\<close>, it is 0 for every
  \<open>d >= 1200\<close> (the hot radius), and it does not increase with the distance: for
  \<open>0 <= d <= d'\<close> the heat at \<open>d'\<close> is at most the heat at \<open>d\<close>.
\<close>

theorem heat_linear_falloff:
  "heat_of d = clamp01 (n_sub (Fin 1) (n_div (Math_min d (Fin 1200)) (Fin 1200))) \<and>
   heat_of (Fin 0) = Fin 1 \<and>
   (n_ge d (Fin 1200) \<longrightarrow> heat_of d = Fin 0) \<and>
   (n_le (Fin 0) d \<and> n_le d d' \<longrightarrow> n_le (heat_of d') (heat_of d))"
  using heat_of_clamp01 heat_of_zero heat_of_far [of d] heat_of_mono [of d d']
  by (simp add: HOT_RADIUS_METERS_def)

theorem heat_linear_falloff_witness:
  "n_ge (Fin 1500) (Fin 1200) \<and> heat_of (Fin 1500) = Fin 0 \<and>
   n_ge (Fin 300) (Fin 1200) = False \<and> n_le (Fin 0) (Fin 300) \<and> n_le (Fin 300) (Fin 1500) \<and>
   n_le (heat_of (Fin 1500)) (heat_of (Fin 300)) \<and> heat_of (Fin 300) = Fin (3 / 4)"
  using heat_linear_falloff [of "Fin 1500" "Fin 1500"] heat_linear_falloff [of "Fin 300" "Fin 1500"]
  by (simp add: n_ge_def heat_of_Fin clamp01_def Math_min_def Math_max_def n_sub_def)

section \<open>The distance\<close>

lemma n_neg_sub: "n_neg (n_sub x y) = n_sub y x"
  by (cases x; cases y; simp add: n_sub_def)

lemma n_mul_comm: "n_mul x y = n_mul y x"
  by (cases x; cases y; auto)

lemma n_mul_neg_right: "n_mul x (n_neg y) = n_neg (n_mul x y)"
  by (cases x; cases y; auto)

lemma n_mul_neg_left: "n_mul (n_neg x) y = n_neg (n_mul x y)"
  by (cases x; cases y; auto)

lemma n_neg_neg: "n_neg (n_neg x) = x"
  by (cases x; simp)

lemma toRad_neg: "toRad (n_neg x) = n_neg (toRad x)"
  by (cases x; simp add: toRad_def Math_PI_def)

lemma sin_half_neg: "Math_sin (n_div (n_neg x) (Fin 2)) = n_neg (Math_sin (n_div x (Fin 2)))"
  by (cases x; simp)

lemma distanceMeters_sym: "distanceMeters p1 p2 = distanceMeters p2 p1"
proof -
  have 1: "n_sub (lat p1) (lat p2) = n_neg (n_sub (lat p2) (lat p1))" by (simp add: n_neg_sub)
  have 2: "n_sub (lng p1) (lng p2) = n_neg (n_sub (lng p2) (lng p1))" by (simp add: n_neg_sub)
  have 3: "n_mul (Math_cos (toRad (lat p2))) (Math_cos (toRad (lat p1)))
         = n_mul (Math_cos (toRad (lat p1))) (Math_cos (toRad (lat p2)))"
    by (rule n_mul_comm)
  show ?thesis
    unfolding distanceMeters_def Let_def 1 2 3 toRad_neg sin_half_neg n_mul_neg_right n_mul_neg_left n_neg_neg
    by (rule refl)
qed

lemma distanceMeters_self: "finite_latlng p1 \<Longrightarrow> distanceMeters p1 p1 = Fin 0"
  by (cases "lat p1"; cases "lng p1";
      simp add: finite_latlng_def distanceMeters_def toRad_def Math_PI_def n_sub_def atan2_real_def)

lemma n_mul_NaN_right: "n_mul x NaN = NaN"
  by (cases x) simp_all

lemma n_add_NaN_right: "n_add x NaN = NaN"
  by (cases x) simp_all

lemma sin_half_toRad_sub:
  "\<not> is_finite y \<Longrightarrow> Math_sin (n_div (toRad (n_sub y x)) (Fin 2)) = NaN"
  by (cases y; cases x; simp add: toRad_def Math_PI_def n_sub_def)

lemma distanceMeters_target_not_finite:
  "\<not> finite_latlng target \<Longrightarrow> distanceMeters clicked target = NaN"
proof -
  assume "\<not> finite_latlng target"
  then consider "\<not> is_finite (lat target)" | "\<not> is_finite (lng target)"
    by (auto simp add: finite_latlng_def)
  then show ?thesis
  proof cases
    case 1
    then show ?thesis
      by (simp add: distanceMeters_def Let_def sin_half_toRad_sub n_mul_NaN_right n_add_NaN_right)
  next
    case 2
    then show ?thesis
      by (simp add: distanceMeters_def Let_def sin_half_toRad_sub n_mul_NaN_right n_add_NaN_right)
  qed
qed

lemma found_only_at_finite_target:
  "n_le (distanceMeters clicked target) FOUND_RADIUS_METERS \<Longrightarrow> finite_latlng target"
  using distanceMeters_target_not_finite [of target clicked] by (cases "finite_latlng target") auto

lemma distanceMeters_clicked_not_finite:
  "\<not> finite_latlng clicked \<Longrightarrow> distanceMeters clicked target = NaN"
  using distanceMeters_target_not_finite [of clicked target] by (simp add: distanceMeters_sym)





section \<open>The label and the popup of a guess\<close>

lemma title_of_found: "title_of d prev = ''FOUND!'' \<longleftrightarrow> n_le d FOUND_RADIUS_METERS"
  by (simp add: title_of_def Let_def split: option.split)

lemma ringRadius_NaN: "Math_min (Math_max (Fin 20) d) (Fin 300) = NaN \<longleftrightarrow> d = NaN"
  by (cases d) (simp_all add: Math_min_def Math_max_def)

lemma invalid_LatLng_not_finite: "invalid_LatLng p \<Longrightarrow> \<not> finite_latlng p"
  by (auto simp add: invalid_LatLng_def finite_latlng_def)

lemma distance_known_valid:
  "distanceMeters clicked target \<noteq> NaN \<Longrightarrow> \<not> invalid_LatLng clicked"
  using distanceMeters_clicked_not_finite [of clicked target] invalid_LatLng_not_finite [of clicked]
  by blast

lemma onMapClick_returns:
  assumes "distanceMeters \<lparr>lat = lat e, lng = lng e\<rparr> (TARGET s) \<noteq> NaN"
  shows "fst (onMapClick e s) = Returned"
    and "prevDistance (snd (onMapClick e s)) =
           Some (distanceMeters \<lparr>lat = lat e, lng = lng e\<rparr> (TARGET s))"
    and "open_popup (mapL (snd (onMapClick e s))) =
     Some \<lparr>p_latlng = \<lparr>lat = lat e, lng = lng e\<rparr>,
           p_content = content_of (title_of (distanceMeters \<lparr>lat = lat e, lng = lng e\<rparr> (TARGET s)) (prevDistance s))
                         (body_of (distanceMeters \<lparr>lat = lat e, lng = lng e\<rparr> (TARGET s)) (TARGET s))\<rparr>"
  using assms distance_known_valid [OF assms]
  by (simp_all add: onMapClick_def Let_def ringRadius_NaN openOn_def)

lemma onMapClick_throws:
  assumes "distanceMeters \<lparr>lat = lat e, lng = lng e\<rparr> (TARGET s) = NaN"
  shows "fst (onMapClick e s) \<noteq> Returned"
    and "prevDistance (snd (onMapClick e s)) = prevDistance s"
    and "open_popup (mapL (snd (onMapClick e s))) = open_popup (mapL s)"
    and "lastCircle (snd (onMapClick e s)) = lastCircle s"
  using assms
  by (cases "lastMarker s"; cases "lastCircle s";
      simp add: onMapClick_def Let_def ringRadius_NaN addTo_def removeLayer_def)+

lemma onMapClick_TARGET: "TARGET (snd (onMapClick e s)) = TARGET s"
  by (simp add: onMapClick_def Let_def)

lemma content_of_found:
  \<open>n_le d FOUND_RADIUS_METERS \<Longrightarrow>
   content_of title (body_of d target) =
     template [Some ''<strong>'', Some title,
               Some ''</strong><div style="margin-top:6px;white-space:pre-line">'',
               Some ''Coordinates: N '', formatDeg (lat target), Some ''  E '', formatDeg (lng target),
               Some ''</div>'']\<close>
  by (cases "formatDeg (lat target)"; cases "formatDeg (lng target)")
     (simp_all add: content_of_def body_of_def)

lemma content_of_not_found:
  "\<not> n_le d FOUND_RADIUS_METERS \<Longrightarrow>
   content_of title (body_of d target) = Some (''<strong>'' @ title @ ''</strong>'')"
  by (simp add: content_of_def body_of_def)

text \<open>
  Claim C1. For every guess, the label is FOUND (the string \<open>"FOUND!"\<close> in the code)
  if and only if the distance \<open>d\<close> from the guess to the current target satisfies
  \<open>d <= 20\<close>, whatever \<open>prevDistance\<close> holds; and exactly then the popup contains the
  target's formatted coordinates: within the reveal radius the content is the label
  followed by \<open>Coordinates: N ... E ...\<close>, beyond it the content is the label alone.
  A guess whose distance is \<open>NaN\<close> opens no popup: the handler ends by the throw of
  the library, and the popup is as it was.
\<close>

theorem found_iff_within_reveal_radius:
  \<open>(title_of (distanceMeters \<lparr>lat = lat e, lng = lng e\<rparr> (TARGET s)) (prevDistance s) = ''FOUND!''
      \<longleftrightarrow> n_le (distanceMeters \<lparr>lat = lat e, lng = lng e\<rparr> (TARGET s)) (Fin 20)) \<and>
   (distanceMeters \<lparr>lat = lat e, lng = lng e\<rparr> (TARGET s) \<noteq> NaN \<longrightarrow>
      fst (onMapClick e s) = Returned \<and>
      open_popup (mapL (snd (onMapClick e s))) =
        Some \<lparr>p_latlng = \<lparr>lat = lat e, lng = lng e\<rparr>,
          p_content =
            (if n_le (distanceMeters \<lparr>lat = lat e, lng = lng e\<rparr> (TARGET s)) (Fin 20)
             then template [Some ''<strong>FOUND!</strong>'',
                    Some ''<div style="margin-top:6px;white-space:pre-line">'',
                    Some ''Coordinates: N '', formatDeg (lat (TARGET s)),
                    Some ''  E '', formatDeg (lng (TARGET s)), Some ''</div>'']
             else Some (''<strong>''
                    @ title_of (distanceMeters \<lparr>lat = lat e, lng = lng e\<rparr> (TARGET s)) (prevDistance s)
                    @ ''</strong>''))\<rparr>) \<and>
   (distanceMeters \<lparr>lat = lat e, lng = lng e\<rparr> (TARGET s) = NaN \<longrightarrow>
      fst (onMapClick e s) \<noteq> Returned \<and>
      open_popup (mapL (snd (onMapClick e s))) = open_popup (mapL s))\<close>
proof -
  define d where "d = distanceMeters \<lparr>lat = lat e, lng = lng e\<rparr> (TARGET s)"
  have 1: "title_of d (prevDistance s) = ''FOUND!'' \<longleftrightarrow> n_le d (Fin 20)"
    by (simp add: title_of_found FOUND_RADIUS_METERS_def)
  have 2: "content_of (title_of d (prevDistance s)) (body_of d (TARGET s)) =
      template [Some ''<strong>FOUND!</strong>'',
                  Some ''<div style=\"margin-top:6px;white-space:pre-line\">'',
                  Some ''Coordinates: N '', formatDeg (lat (TARGET s)),
                  Some ''  E '', formatDeg (lng (TARGET s)), Some ''</div>'']"
    if "n_le d (Fin 20)"
    using that 1 by (cases "formatDeg (lat (TARGET s))"; cases "formatDeg (lng (TARGET s))")
     (simp_all  add: content_of_found FOUND_RADIUS_METERS_def)
  have 3: "content_of (title_of d (prevDistance s)) (body_of d (TARGET s)) =
      Some (''<strong>'' @ title_of d (prevDistance s) @ ''</strong>'')"
    if "\<not> n_le d (Fin 20)"
    using that by (simp add: content_of_not_found FOUND_RADIUS_METERS_def)
  have 4: "fst (onMapClick e s) = Returned \<and>
      open_popup (mapL (snd (onMapClick e s))) =
        Some \<lparr>p_latlng = \<lparr>lat = lat e, lng = lng e\<rparr>,
          p_content = content_of (title_of d (prevDistance s)) (body_of d (TARGET s))\<rparr>"
    if "d \<noteq> NaN"
    using that onMapClick_returns [of e s] by (simp add: d_def)
  have 5: "fst (onMapClick e s) \<noteq> Returned \<and>
      open_popup (mapL (snd (onMapClick e s))) = open_popup (mapL s)"
    if "d = NaN"
    using that onMapClick_throws [of e s] by (simp add: d_def)
  show ?thesis
    unfolding d_def [symmetric] using 1 2 3 4 5 by simp
qed

lemma decimal_small: "n < 10 \<Longrightarrow> decimal n = [digit_char n]"
  by (subst decimal.simps) simp

lemma decimal_large: "10 \<le> n \<Longrightarrow> decimal n = decimal (n div 10) @ [digit_char (n mod 10)]"
  by (subst decimal.simps) simp

lemmas decimal_eval = decimal_small decimal_large digit_char_def

lemma init_TARGET:
  "TARGET (init off) = \<lparr>lat = Fin (32 + 42.568 / 60), lng = Fin (35 + 6.469 / 60)\<rparr>"
  by (simp add: init_def Let_def)

lemma formatDeg_target_lat:
  "formatDeg (Fin (32 + 42.568 / 60)) = Some (''32'' @ [CHR 0xB0] @ '' 42.568'' @ [CHR 0x27])"
  by (simp add: formatDeg_def n_sub_def decimal_eval)

lemma formatDeg_target_lng:
  "formatDeg (Fin (35 + 6.469 / 60)) = Some (''35'' @ [CHR 0xB0] @ '' 6.469'' @ [CHR 0x27])"
  by (simp add: formatDeg_def n_sub_def decimal_eval)

lemma distance_half_turn:
  "distanceMeters \<lparr>lat = Fin 0, lng = Fin 180\<rparr> \<lparr>lat = Fin 0, lng = Fin 0\<rparr> = Fin (6371000 * pi)"
  by (simp add: distanceMeters_def toRad_def Math_PI_def n_sub_def atan2_real_def)

lemma far_from_found: "\<not> n_le (Fin (6371000 * pi)) (Fin 20)"
  using pi_ge_two by simp

lemma setTarget_NaN_35:
  "snd (setTarget (JNum NaN) (JNum (Fin 35)) OptsMissing (init off)) =
     (init off)\<lparr>TARGET := \<lparr>lat = NaN, lng = Fin 35\<rparr>\<rparr>"
  by (simp add: setTarget_def recenter_and_debug_def recenter_view_def default_opts_def
        init_def Let_def)

lemma distance_to_NaN_target:
  "distanceMeters clicked \<lparr>lat = NaN, lng = Fin 35\<rparr> = NaN"
  by (rule distanceMeters_target_not_finite) (simp add: finite_latlng_def)

theorem found_iff_within_reveal_radius_witness:
  \<open>distanceMeters \<lparr>lat = Fin (32 + 42.568 / 60), lng = Fin (35 + 6.469 / 60)\<rparr>
      (TARGET (init \<lparr>lat = Fin 0, lng = Fin 0\<rparr>)) \<noteq> NaN \<and>
   onMapClick \<lparr>lat = Fin (32 + 42.568 / 60), lng = Fin (35 + 6.469 / 60)\<rparr>
       (init \<lparr>lat = Fin 0, lng = Fin 0\<rparr>) =
     (Returned, snd (onMapClick \<lparr>lat = Fin (32 + 42.568 / 60), lng = Fin (35 + 6.469 / 60)\<rparr>
       (init \<lparr>lat = Fin 0, lng = Fin 0\<rparr>))) \<and>
   open_popup (mapL (snd (onMapClick \<lparr>lat = Fin (32 + 42.568 / 60), lng = Fin (35 + 6.469 / 60)\<rparr>
       (init \<lparr>lat = Fin 0, lng = Fin 0\<rparr>)))) =
     Some \<lparr>p_latlng = \<lparr>lat = Fin (32 + 42.568 / 60), lng = Fin (35 + 6.469 / 60)\<rparr>,
           p_content = Some (''<strong>FOUND!</strong>''
             @ ''<div style="margin-top:6px;white-space:pre-line">''
             @ ''Coordinates: N 32'' @ [CHR 0xB0] @ '' 42.568'' @ [CHR 0x27]
             @ ''  E 35'' @ [CHR 0xB0] @ '' 6.469'' @ [CHR 0x27] @ ''</div>'')\<rparr> \<and>
   distanceMeters \<lparr>lat = Fin 32, lng = Fin 35\<rparr>
      (TARGET (snd (setTarget (JNum NaN) (JNum (Fin 35)) OptsMissing (init \<lparr>lat = Fin 0, lng = Fin 0\<rparr>)))) = NaN \<and>
   fst (onMapClick \<lparr>lat = Fin 32, lng = Fin 35\<rparr>
      (snd (setTarget (JNum NaN) (JNum (Fin 35)) OptsMissing (init \<lparr>lat = Fin 0, lng = Fin 0\<rparr>)))) =
     Threw CircleRadiusNaN \<and>
   open_popup (mapL (snd (onMapClick \<lparr>lat = Fin 32, lng = Fin 35\<rparr>
      (snd (setTarget (JNum NaN) (JNum (Fin 35)) OptsMissing (init \<lparr>lat = Fin 0, lng = Fin 0\<rparr>)))))) = None\<close>
proof -
  let ?e = "\<lparr>lat = Fin (32 + 42.568 / 60), lng = Fin (35 + 6.469 / 60)\<rparr>"
  let ?s = "init \<lparr>lat = Fin 0, lng = Fin 0\<rparr>"
  let ?e' = "\<lparr>lat = Fin 32, lng = Fin 35\<rparr>"
  let ?s' = "snd (setTarget (JNum NaN) (JNum (Fin 35)) OptsMissing ?s)"
  have d: "distanceMeters \<lparr>lat = lat ?e, lng = lng ?e\<rparr> (TARGET ?s) = Fin 0"
    by (simp add: init_TARGET distanceMeters_self finite_latlng_def)
  have found: "fst (onMapClick ?e ?s) = Returned \<and>
     open_popup (mapL (snd (onMapClick ?e ?s))) =
       Some \<lparr>p_latlng = ?e,
           p_content = Some (''<strong>FOUND!</strong>''
             @ ''<div style=\"margin-top:6px;white-space:pre-line\">''
             @ ''Coordinates: N 32'' @ [CHR 0xB0] @ '' 42.568'' @ [CHR 0x27]
             @ ''  E 35'' @ [CHR 0xB0] @ '' 6.469'' @ [CHR 0x27] @ ''</div>'')\<rparr>"
    using found_iff_within_reveal_radius [of ?e ?s]
    by (simp add: init_TARGET distanceMeters_self finite_latlng_def formatDeg_def n_sub_def
          decimal_eval)
  have d': "distanceMeters \<lparr>lat = lat ?e', lng = lng ?e'\<rparr> (TARGET ?s') = NaN"
    by (simp add: setTarget_NaN_35 distance_to_NaN_target)
  have "fst (onMapClick ?e' ?s') \<noteq> Returned \<and>
      open_popup (mapL (snd (onMapClick ?e' ?s'))) = open_popup (mapL ?s')"
    using found_iff_within_reveal_radius [of ?e' ?s'] d' by blast
  moreover have "open_popup (mapL ?s') = None"
    unfolding setTarget_NaN_35 by (simp add: init_def Let_def)
  moreover have "fst (onMapClick ?e' ?s') = Threw CircleRadiusNaN"
    using d' by (simp add: onMapClick_def Let_def ringRadius_NaN invalid_LatLng_def)
  ultimately show ?thesis
    using found d d' by (simp add: prod_eq_iff)
qed

lemma n_gt_not_le: "n_gt d x \<Longrightarrow> \<not> n_le d x"
  by (cases d; cases x; simp add: n_gt_def)

lemma title_of_first:
  "\<not> n_le d FOUND_RADIUS_METERS \<Longrightarrow>
   title_of d None =
     (if n_ge (heat_of d) (Fin 0.72) then ''Very Hot''
      else if n_ge (heat_of d) (Fin 0.36) then ''Warm'' else ''Cold'')"
  by (simp add: title_of_def Let_def)

lemma title_of_next:
  "\<not> n_le d FOUND_RADIUS_METERS \<Longrightarrow>
   title_of d (Some prev) =
     (if n_lt d (n_sub prev (Fin 0.5)) then ''Warmer''
      else if n_gt d (n_add prev (Fin 0.5)) then ''Colder'' else ''Same'')"
  by (simp add: title_of_def Let_def)

lemma not_both_sides:
  "n_gt d (n_add prev (Fin 0.5)) \<Longrightarrow> \<not> n_lt d (n_sub prev (Fin 0.5))"
  by (cases d; cases prev; simp add: n_gt_def n_sub_def)

lemma within_tolerance:
  "n_le (Math_abs (n_sub d prev)) (Fin 0.5) \<Longrightarrow>
   \<not> n_lt d (n_sub prev (Fin 0.5)) \<and> \<not> n_gt d (n_add prev (Fin 0.5))"
  by (cases d; cases prev; simp add: n_gt_def n_sub_def abs_le_iff) argo

text \<open>
  Claim C2. For every guess with distance \<open>d > 20\<close>: with no previous distance the
  label is \<open>"Very Hot"\<close> when \<open>heat >= 0.72\<close>, \<open>"Warm"\<close> when \<open>0.36 <= heat < 0.72\<close> and
  \<open>"Cold"\<close> otherwise; with a previous distance \<open>prev\<close> it is \<open>"Warmer"\<close> when
  \<open>d < prev - 0.5\<close>, \<open>"Colder"\<close> when \<open>d > prev + 0.5\<close> and \<open>"Same"\<close> when
  \<open>|d - prev| <= 0.5\<close>; the tests are made in this order, and the popup of such a
  guess shows this label and nothing else.
\<close>

theorem label_beyond_reveal_radius:
  "(n_gt d (Fin 20) \<longrightarrow>
     (n_ge (heat_of d) (Fin 0.72) \<longrightarrow> title_of d None = ''Very Hot'') \<and>
     (n_ge (heat_of d) (Fin 0.36) \<and> n_lt (heat_of d) (Fin 0.72) \<longrightarrow> title_of d None = ''Warm'') \<and>
     (\<not> n_ge (heat_of d) (Fin 0.36) \<longrightarrow> title_of d None = ''Cold'') \<and>
     (n_lt d (n_sub prev (Fin 0.5)) \<longrightarrow> title_of d (Some prev) = ''Warmer'') \<and>
     (n_gt d (n_add prev (Fin 0.5)) \<longrightarrow> title_of d (Some prev) = ''Colder'') \<and>
     (n_le (Math_abs (n_sub d prev)) (Fin 0.5) \<longrightarrow> title_of d (Some prev) = ''Same'') \<and>
     title_of d None =
       (if n_ge (heat_of d) (Fin 0.72) then ''Very Hot''
        else if n_ge (heat_of d) (Fin 0.36) then ''Warm'' else ''Cold'') \<and>
     title_of d (Some prev) =
       (if n_lt d (n_sub prev (Fin 0.5)) then ''Warmer''
        else if n_gt d (n_add prev (Fin 0.5)) then ''Colder'' else ''Same'')) \<and>
   (n_gt (distanceMeters \<lparr>lat = lat e, lng = lng e\<rparr> (TARGET s)) (Fin 20) \<longrightarrow>
     fst (onMapClick e s) = Returned \<and>
     open_popup (mapL (snd (onMapClick e s))) =
       Some \<lparr>p_latlng = \<lparr>lat = lat e, lng = lng e\<rparr>,
             p_content = Some (''<strong>''
               @ title_of (distanceMeters \<lparr>lat = lat e, lng = lng e\<rparr> (TARGET s)) (prevDistance s)
               @ ''</strong>'')\<rparr>)"
proof (intro conjI impI)
  assume "n_gt (distanceMeters \<lparr>lat = lat e, lng = lng e\<rparr> (TARGET s)) (Fin 20)"
  then have far: "\<not> n_le (distanceMeters \<lparr>lat = lat e, lng = lng e\<rparr> (TARGET s)) FOUND_RADIUS_METERS"
    and known: "distanceMeters \<lparr>lat = lat e, lng = lng e\<rparr> (TARGET s) \<noteq> NaN"
    by (auto simp add: n_gt_not_le FOUND_RADIUS_METERS_def n_gt_def)
  show "fst (onMapClick e s) = Returned"
    by (rule onMapClick_returns(1) [OF known])
  show "open_popup (mapL (snd (onMapClick e s))) =
       Some \<lparr>p_latlng = \<lparr>lat = lat e, lng = lng e\<rparr>,
             p_content = Some (''<strong>''
               @ title_of (distanceMeters \<lparr>lat = lat e, lng = lng e\<rparr> (TARGET s)) (prevDistance s)
               @ ''</strong>'')\<rparr>"
    using far by (simp add: onMapClick_returns(3) [OF known] content_of_not_found)
next
  assume "n_gt d (Fin 20)"
  then have far: "\<not> n_le d FOUND_RADIUS_METERS"
    by (simp add: n_gt_not_le FOUND_RADIUS_METERS_def)
  show first: "title_of d None =
       (if n_ge (heat_of d) (Fin 0.72) then ''Very Hot''
        else if n_ge (heat_of d) (Fin 0.36) then ''Warm'' else ''Cold'')"
    by (rule title_of_first [OF far])
  show nxt: "title_of d (Some prev) =
       (if n_lt d (n_sub prev (Fin 0.5)) then ''Warmer''
        else if n_gt d (n_add prev (Fin 0.5)) then ''Colder'' else ''Same'')"
    by (rule title_of_next [OF far])
  show "title_of d None = ''Very Hot''" if "n_ge (heat_of d) (Fin 0.72)"
    using that by (simp add: first)
  show "title_of d None = ''Warm''" if "n_ge (heat_of d) (Fin 0.36) \<and> n_lt (heat_of d) (Fin 0.72)"
  proof -
    from that have "\<not> n_ge (heat_of d) (Fin 0.72)"
      by (cases "heat_of d") (simp_all add: n_ge_def)
    with that show ?thesis by (simp add: first)
  qed
  show "title_of d None = ''Cold''" if "\<not> n_ge (heat_of d) (Fin 0.36)"
  proof -
    from that have "\<not> n_ge (heat_of d) (Fin 0.72)"
      by (cases "heat_of d") (simp_all add: n_ge_def)
    with that show ?thesis by (simp add: first)
  qed
  show "title_of d (Some prev) = ''Warmer''" if "n_lt d (n_sub prev (Fin 0.5))"
    using that by (simp add: nxt)
  show "title_of d (Some prev) = ''Colder''" if "n_gt d (n_add prev (Fin 0.5))"
    using that not_both_sides [OF that] by (simp add: nxt)
  show "title_of d (Some prev) = ''Same''" if "n_le (Math_abs (n_sub d prev)) (Fin 0.5)"
    using within_tolerance [OF that] by (simp add: nxt)
qed

theorem label_beyond_reveal_radius_witness:
  "n_gt (Fin 100) (Fin 20) \<and> title_of (Fin 100) None = ''Very Hot'' \<and>
   n_gt (Fin 600) (Fin 20) \<and> title_of (Fin 600) None = ''Warm'' \<and>
   n_gt (Fin 1000) (Fin 20) \<and> title_of (Fin 1000) None = ''Cold'' \<and>
   n_gt (Fin 400) (Fin 20) \<and> title_of (Fin 400) (Some (Fin 500)) = ''Warmer'' \<and>
   title_of (Fin 600) (Some (Fin 500)) = ''Colder'' \<and>
   n_gt (Fin 500.3) (Fin 20) \<and> title_of (Fin 500.3) (Some (Fin 500)) = ''Same'' \<and>
   fst (onMapClick \<lparr>lat = Fin 0, lng = Fin 180\<rparr>
      ((init \<lparr>lat = Fin 0, lng = Fin 0\<rparr>)\<lparr>TARGET := \<lparr>lat = Fin 0, lng = Fin 0\<rparr>\<rparr>)) = Returned \<and>
   map_option p_content (open_popup (mapL (snd (onMapClick \<lparr>lat = Fin 0, lng = Fin 180\<rparr>
      ((init \<lparr>lat = Fin 0, lng = Fin 0\<rparr>)\<lparr>TARGET := \<lparr>lat = Fin 0, lng = Fin 0\<rparr>\<rparr>))))) =
     Some (Some ''<strong>Cold</strong>'')"
proof -
  let ?s = "(init \<lparr>lat = Fin 0, lng = Fin 0\<rparr>)\<lparr>TARGET := \<lparr>lat = Fin 0, lng = Fin 0\<rparr>\<rparr>"
  let ?e = "\<lparr>lat = Fin 0, lng = Fin 180\<rparr>"
  have far: "\<not> n_le (Fin (6371000 * pi)) FOUND_RADIUS_METERS"
    using far_from_found by (simp add: FOUND_RADIUS_METERS_def)
  have hot: "n_ge (Fin (6371000 * pi)) HOT_RADIUS_METERS"
    using pi_ge_two by (simp add: HOT_RADIUS_METERS_def n_ge_def)
  have cold: "title_of (Fin (6371000 * pi)) None = ''Cold''"
    by (simp add: title_of_first [OF far] heat_of_far [OF hot] n_ge_def)
  have gt: "n_gt (Fin (6371000 * pi)) (Fin 20)"
    using pi_ge_two by (simp add: n_gt_def)
  have none: "prevDistance ?s = None"
    by (simp add: init_def Let_def)
  have click: "fst (onMapClick ?e ?s) = Returned \<and>
    map_option p_content (open_popup (mapL (snd (onMapClick ?e ?s)))) = Some (Some ''<strong>Cold</strong>'')"
    using label_beyond_reveal_radius [where e = ?e and s = ?s] gt
    by (simp add: distance_half_turn cold none)
  have labels: "n_gt (Fin 100) (Fin 20) \<and> title_of (Fin 100) None = ''Very Hot'' \<and>
   n_gt (Fin 600) (Fin 20) \<and> title_of (Fin 600) None = ''Warm'' \<and>
   n_gt (Fin 1000) (Fin 20) \<and> title_of (Fin 1000) None = ''Cold'' \<and>
   n_gt (Fin 400) (Fin 20) \<and> title_of (Fin 400) (Some (Fin 500)) = ''Warmer'' \<and>
   title_of (Fin 600) (Some (Fin 500)) = ''Colder'' \<and>
   n_gt (Fin 500.3) (Fin 20) \<and> title_of (Fin 500.3) (Some (Fin 500)) = ''Same''"
    using label_beyond_reveal_radius [where d = "Fin 100" and prev = "Fin 500"] label_beyond_reveal_radius [where d = "Fin 600" and prev = "Fin 500"]
      label_beyond_reveal_radius [where d = "Fin 1000" and prev = "Fin 500"] label_beyond_reveal_radius [where d = "Fin 400" and prev = "Fin 500"]
      label_beyond_reveal_radius [where d = "Fin 500.3" and prev = "Fin 500"]
    by (simp add: n_gt_def n_ge_def n_sub_def heat_of_Fin)
  from labels click show ?thesis by simp
qed

text \<open>
  Claim C4. Every call of \<open>onMapClick\<close> that runs to its end, also one whose label
  is FOUND, computes its label from the value of \<open>prevDistance\<close> held before the call,
  and leaves \<open>prevDistance\<close> equal to the distance \<open>d\<close> of this guess; so the label of
  the next guess is computed against \<open>d\<close>. The call runs to its end exactly when \<open>d\<close>
  is not \<open>NaN\<close>; otherwise the library throws before the last line, and
  \<open>prevDistance\<close> keeps its value.
\<close>

theorem prevDistance_updated_after_label:
  "(fst (onMapClick e s) = Returned \<longleftrightarrow>
      distanceMeters \<lparr>lat = lat e, lng = lng e\<rparr> (TARGET s) \<noteq> NaN) \<and>
   (fst (onMapClick e s) = Returned \<longrightarrow>
      prevDistance (snd (onMapClick e s)) =
        Some (distanceMeters \<lparr>lat = lat e, lng = lng e\<rparr> (TARGET s)) \<and>
      open_popup (mapL (snd (onMapClick e s))) =
        Some \<lparr>p_latlng = \<lparr>lat = lat e, lng = lng e\<rparr>,
              p_content =
                content_of
                  (title_of (distanceMeters \<lparr>lat = lat e, lng = lng e\<rparr> (TARGET s)) (prevDistance s))
                  (body_of (distanceMeters \<lparr>lat = lat e, lng = lng e\<rparr> (TARGET s)) (TARGET s))\<rparr>) \<and>
   (fst (onMapClick e s) \<noteq> Returned \<longrightarrow>
      prevDistance (snd (onMapClick e s)) = prevDistance s) \<and>
   (fst (onMapClick e s) = Returned \<and> fst (onMapClick e' (snd (onMapClick e s))) = Returned \<longrightarrow>
      open_popup (mapL (snd (onMapClick e' (snd (onMapClick e s))))) =
        Some \<lparr>p_latlng = \<lparr>lat = lat e', lng = lng e'\<rparr>,
              p_content =
                content_of
                  (title_of (distanceMeters \<lparr>lat = lat e', lng = lng e'\<rparr> (TARGET s))
                     (Some (distanceMeters \<lparr>lat = lat e, lng = lng e\<rparr> (TARGET s))))
                  (body_of (distanceMeters \<lparr>lat = lat e', lng = lng e'\<rparr> (TARGET s)) (TARGET s))\<rparr>)"
proof -
  define d where "d = distanceMeters \<lparr>lat = lat e, lng = lng e\<rparr> (TARGET s)"
  define s' where "s' = snd (onMapClick e s)"
  define d' where "d' = distanceMeters \<lparr>lat = lat e', lng = lng e'\<rparr> (TARGET s)"
  have iff: "fst (onMapClick e s) = Returned \<longleftrightarrow> d \<noteq> NaN"
    using onMapClick_returns(1) [of e s] onMapClick_throws(1) [of e s] unfolding d_def by blast
  have iff': "fst (onMapClick e' s') = Returned \<longleftrightarrow> d' \<noteq> NaN"
    using onMapClick_returns(1) [of e' s'] onMapClick_throws(1) [of e' s']
    unfolding d'_def s'_def onMapClick_TARGET by blast
  have ended: "prevDistance s' = Some d \<and>
      open_popup (mapL s') =
        Some \<lparr>p_latlng = \<lparr>lat = lat e, lng = lng e\<rparr>,
              p_content = content_of (title_of d (prevDistance s)) (body_of d (TARGET s))\<rparr>"
    if "d \<noteq> NaN"
    using that onMapClick_returns(2,3) [of e s] unfolding d_def s'_def by simp
  have thrown: "prevDistance s' = prevDistance s" if "d = NaN"
    using that onMapClick_throws(2) [of e s] unfolding d_def s'_def by simp
  have second: "open_popup (mapL (snd (onMapClick e' s'))) =
        Some \<lparr>p_latlng = \<lparr>lat = lat e', lng = lng e'\<rparr>,
              p_content = content_of (title_of d' (Some d)) (body_of d' (TARGET s))\<rparr>"
    if "d \<noteq> NaN" "d' \<noteq> NaN"
  proof -
    have "distanceMeters \<lparr>lat = lat e', lng = lng e'\<rparr> (TARGET s') \<noteq> NaN"
      using that(2) unfolding d'_def s'_def onMapClick_TARGET .
    from onMapClick_returns(3) [OF this] ended [OF that(1)] show ?thesis
      unfolding d'_def s'_def onMapClick_TARGET by simp
  qed
  show ?thesis
    unfolding d_def [symmetric] s'_def [symmetric] d'_def [symmetric]
    using iff iff' ended thrown second by blast
qed

theorem prevDistance_updated_after_label_witness:
  \<open>fst (onMapClick \<lparr>lat = Fin 0, lng = Fin 0\<rparr>
      ((init \<lparr>lat = Fin 0, lng = Fin 0\<rparr>)\<lparr>TARGET := \<lparr>lat = Fin 0, lng = Fin 0\<rparr>\<rparr>)) = Returned \<and>
   prevDistance (snd (onMapClick \<lparr>lat = Fin 0, lng = Fin 0\<rparr>
      ((init \<lparr>lat = Fin 0, lng = Fin 0\<rparr>)\<lparr>TARGET := \<lparr>lat = Fin 0, lng = Fin 0\<rparr>\<rparr>))) = Some (Fin 0) \<and>
   fst (onMapClick \<lparr>lat = Fin 0, lng = Fin 180\<rparr>
      (snd (onMapClick \<lparr>lat = Fin 0, lng = Fin 0\<rparr>
        ((init \<lparr>lat = Fin 0, lng = Fin 0\<rparr>)\<lparr>TARGET := \<lparr>lat = Fin 0, lng = Fin 0\<rparr>\<rparr>)))) = Returned \<and>
   map_option p_content (open_popup (mapL (snd (onMapClick \<lparr>lat = Fin 0, lng = Fin 180\<rparr>
      (snd (onMapClick \<lparr>lat = Fin 0, lng = Fin 0\<rparr>
        ((init \<lparr>lat = Fin 0, lng = Fin 0\<rparr>)\<lparr>TARGET := \<lparr>lat = Fin 0, lng = Fin 0\<rparr>\<rparr>))))))) =
     Some (Some ''<strong>Colder</strong>'') \<and>
   fst (onMapClick \<lparr>lat = Fin 32, lng = Fin 35\<rparr>
      ((init \<lparr>lat = Fin 0, lng = Fin 0\<rparr>)\<lparr>TARGET := \<lparr>lat = NaN, lng = Fin 35\<rparr>, prevDistance := Some (Fin 500)\<rparr>)) \<noteq> Returned \<and>
   prevDistance (snd (onMapClick \<lparr>lat = Fin 32, lng = Fin 35\<rparr>
      ((init \<lparr>lat = Fin 0, lng = Fin 0\<rparr>)\<lparr>TARGET := \<lparr>lat = NaN, lng = Fin 35\<rparr>, prevDistance := Some (Fin 500)\<rparr>))) = Some (Fin 500)\<close>
proof -
  let ?s = "(init \<lparr>lat = Fin 0, lng = Fin 0\<rparr>)\<lparr>TARGET := \<lparr>lat = Fin 0, lng = Fin 0\<rparr>\<rparr>"
  let ?e = "\<lparr>lat = Fin 0, lng = Fin 0\<rparr>"
  let ?e' = "\<lparr>lat = Fin 0, lng = Fin 180\<rparr>"
  let ?t = "(init \<lparr>lat = Fin 0, lng = Fin 0\<rparr>)\<lparr>TARGET := \<lparr>lat = NaN, lng = Fin 35\<rparr>, prevDistance := Some (Fin 500)\<rparr>"
  let ?c = "\<lparr>lat = Fin 32, lng = Fin 35\<rparr>"
  have far: "\<not> n_le (Fin (6371000 * pi)) FOUND_RADIUS_METERS"
    using far_from_found by (simp add: FOUND_RADIUS_METERS_def)
  have colder: "title_of (Fin (6371000 * pi)) (Some (Fin 0)) = ''Colder''"
    using pi_ge_two by (simp add: title_of_next [OF far] n_sub_def n_gt_def)
  have first: "fst (onMapClick ?e ?s) = Returned \<and> prevDistance (snd (onMapClick ?e ?s)) = Some (Fin 0)"
    using prevDistance_updated_after_label [of ?e ?s ?e']
    by (simp add: distanceMeters_self finite_latlng_def)
  have next_returns: "fst (onMapClick ?e' (snd (onMapClick ?e ?s))) = Returned"
    using prevDistance_updated_after_label [of ?e' "snd (onMapClick ?e ?s)" ?e']
    by (simp add: onMapClick_TARGET distance_half_turn)
  have second: "map_option p_content (open_popup (mapL (snd (onMapClick ?e' (snd (onMapClick ?e ?s)))))) =
     Some (Some ''<strong>Colder</strong>'')"
    using prevDistance_updated_after_label [of ?e ?s ?e'] first next_returns
    by (simp add: distanceMeters_self finite_latlng_def distance_half_turn colder
          content_of_not_found [OF far])
  have thrown: "fst (onMapClick ?c ?t) \<noteq> Returned \<and> prevDistance (snd (onMapClick ?c ?t)) = Some (Fin 500)"
    using prevDistance_updated_after_label [of ?c ?t ?c]
    by (simp add: distance_to_NaN_target)
  from first next_returns second thrown show ?thesis by blast
qed

section \<open>Replacing the target\<close>

lemma typeof_number: "typeof v = ''number'' \<longleftrightarrow> (\<exists>x. v = JNum x)"
  by (cases v) simp_all

lemma setTarget_invalid:
  "typeof lat_arg \<noteq> ''number'' \<or> typeof lng_arg \<noteq> ''number'' \<Longrightarrow>
   setTarget lat_arg lng_arg oa s =
     (Returned, s\<lparr>console := console s @ [''setTarget requires numeric lat and lng'']\<rparr>)"
  by (simp add: setTarget_def)

lemma setTarget_numeric:
  "setTarget (JNum la) (JNum lo) OptsMissing s =
     (Returned, s\<lparr>TARGET := \<lparr>lat = la, lng = lo\<rparr>, lastMarker := None, lastCircle := None,
                  prevDistance := None, mapL := cleared_map s\<rparr>)"
  by (cases "lastMarker s"; cases "lastCircle s")
     (simp_all add: setTarget_def recenter_and_debug_def recenter_view_def default_opts_def
        cleared_map_def)

lemma cleared_map_layers:
  "layers (cleared_map s) =
     filter (\<lambda>x. lastMarker s \<noteq> None \<longrightarrow> ident x \<noteq> ident (the (lastMarker s)))
       (filter (\<lambda>x. lastCircle s \<noteq> None \<longrightarrow> ident x \<noteq> ident (the (lastCircle s))) (layers (mapL s)))"
  by (cases "lastMarker s"; cases "lastCircle s") (auto simp add: cleared_map_def removeLayer_def Let_def intro: filter_cong)

lemma cleared_map_removed:
  "lastMarker s = Some l \<or> lastCircle s = Some l \<Longrightarrow> ident l \<notin> ident ` set (layers (cleared_map s))"
  by (auto simp add: cleared_map_layers)

lemma title_of_first_guess:
  "title_of d None \<in> {''FOUND!'', ''Very Hot'', ''Warm'', ''Cold''}"
  by (simp add: title_of_def Let_def)

text \<open>
  Claim C6. For every call \<open>setTarget(lat, lng, opts)\<close> in which \<open>lat\<close> or \<open>lng\<close> is not
  of type number, whatever \<open>opts\<close> is (also \<open>null\<close>), the call returns without
  throwing, logs one warning and changes nothing else: \<open>TARGET\<close>, \<open>prevDistance\<close>,
  \<open>lastMarker\<close>, \<open>lastCircle\<close> and the map are as before the call.
\<close>

theorem setTarget_rejects_non_numbers:
  "typeof lat_arg \<noteq> ''number'' \<or> typeof lng_arg \<noteq> ''number'' \<Longrightarrow>
   setTarget lat_arg lng_arg oa s =
     (Returned, s\<lparr>console := console s @ [''setTarget requires numeric lat and lng'']\<rparr>) \<and>
   TARGET (snd (setTarget lat_arg lng_arg oa s)) = TARGET s \<and>
   prevDistance (snd (setTarget lat_arg lng_arg oa s)) = prevDistance s \<and>
   lastMarker (snd (setTarget lat_arg lng_arg oa s)) = lastMarker s \<and>
   lastCircle (snd (setTarget lat_arg lng_arg oa s)) = lastCircle s \<and>
   mapL (snd (setTarget lat_arg lng_arg oa s)) = mapL s"
  by (simp add: setTarget_invalid)

theorem setTarget_rejects_non_numbers_witness:
  "typeof (JStr ''35.11'') \<noteq> ''number'' \<and>
   setTarget (JNum (Fin 32.71)) (JStr ''35.11'') OptsNull (init \<lparr>lat = Fin 0, lng = Fin 0\<rparr>) =
     (Returned, (init \<lparr>lat = Fin 0, lng = Fin 0\<rparr>)\<lparr>console := [''setTarget requires numeric lat and lng'']\<rparr>) \<and>
   TARGET (snd (setTarget (JNum (Fin 32.71)) (JStr ''35.11'') OptsNull (init \<lparr>lat = Fin 0, lng = Fin 0\<rparr>))) =
     \<lparr>lat = Fin (32 + 42.568 / 60), lng = Fin (35 + 6.469 / 60)\<rparr>"
  using setTarget_rejects_non_numbers [of "JNum (Fin 32.71)" "JStr ''35.11''" OptsNull "init \<lparr>lat = Fin 0, lng = Fin 0\<rparr>"]
  by (simp add: init_def Let_def)

lemma cleared_map_subset: "set (layers (cleared_map s)) \<subseteq> set (layers (mapL s))"
  by (auto simp add: cleared_map_layers)

lemma recenter_and_debug_fields:
  "TARGET (snd (recenter_and_debug la lo opts s)) = TARGET s"
  "lastMarker (snd (recenter_and_debug la lo opts s)) = lastMarker s"
  "lastCircle (snd (recenter_and_debug la lo opts s)) = lastCircle s"
  "prevDistance (snd (recenter_and_debug la lo opts s)) = prevDistance s"
  "console (snd (recenter_and_debug la lo opts s)) = console s"
  by (auto simp add: recenter_and_debug_def recenter_view_def debug_marker_def setView_def
        split: sum.splits if_splits)

lemma setTarget_numeric_fields:
  "TARGET (snd (setTarget (JNum la) (JNum lo) oa s)) = \<lparr>lat = la, lng = lo\<rparr>"
  "lastMarker (snd (setTarget (JNum la) (JNum lo) oa s)) = None"
  "lastCircle (snd (setTarget (JNum la) (JNum lo) oa s)) = None"
  "prevDistance (snd (setTarget (JNum la) (JNum lo) oa s)) = None"
  "console (snd (setTarget (JNum la) (JNum lo) oa s)) = console s"
  by (cases oa; cases "lastMarker s"; cases "lastCircle s";
      simp add: setTarget_def recenter_and_debug_fields)+

text \<open>
  Claim C7. For every call \<open>setTarget(lat, lng)\<close> with two Numbers, after the call
  \<open>TARGET\<close> is \<open>{lat, lng}\<close>, the marker and the ring drawn before (if any) are no
  longer on the map and nothing new is drawn, \<open>lastMarker\<close> and \<open>lastCircle\<close> are
  \<open>null\<close>, and \<open>prevDistance\<close> is \<open>null\<close>: the next guess is labelled as a first
  guess, by FOUND or a heat tier and never by a comparison with an earlier distance.
  That guess shows its label when its distance is not \<open>NaN\<close>; when it is \<open>NaN\<close> (as
  for a \<open>NaN\<close> target) the handler ends by the throw of the library and shows no
  label. The four variables are set so whatever third argument is passed.
\<close>

theorem setTarget_resets_game:
  "fst (setTarget (JNum la) (JNum lo) OptsMissing s) = Returned \<and>
   TARGET (snd (setTarget (JNum la) (JNum lo) OptsMissing s)) = \<lparr>lat = la, lng = lo\<rparr> \<and>
   lastMarker (snd (setTarget (JNum la) (JNum lo) OptsMissing s)) = None \<and>
   lastCircle (snd (setTarget (JNum la) (JNum lo) OptsMissing s)) = None \<and>
   prevDistance (snd (setTarget (JNum la) (JNum lo) OptsMissing s)) = None \<and>
   (\<forall>l. lastMarker s = Some l \<or> lastCircle s = Some l \<longrightarrow>
        ident l \<notin> ident ` set (layers (mapL (snd (setTarget (JNum la) (JNum lo) OptsMissing s))))) \<and>
   set (layers (mapL (snd (setTarget (JNum la) (JNum lo) OptsMissing s)))) \<subseteq> set (layers (mapL s)) \<and>
   (distanceMeters \<lparr>lat = lat e, lng = lng e\<rparr> \<lparr>lat = la, lng = lo\<rparr> \<noteq> NaN \<longrightarrow>
      fst (onMapClick e (snd (setTarget (JNum la) (JNum lo) OptsMissing s))) = Returned \<and>
      open_popup (mapL (snd (onMapClick e (snd (setTarget (JNum la) (JNum lo) OptsMissing s))))) =
        Some \<lparr>p_latlng = \<lparr>lat = lat e, lng = lng e\<rparr>,
              p_content =
                content_of
                  (title_of (distanceMeters \<lparr>lat = lat e, lng = lng e\<rparr> \<lparr>lat = la, lng = lo\<rparr>) None)
                  (body_of (distanceMeters \<lparr>lat = lat e, lng = lng e\<rparr> \<lparr>lat = la, lng = lo\<rparr>)
                     \<lparr>lat = la, lng = lo\<rparr>)\<rparr>) \<and>
   (distanceMeters \<lparr>lat = lat e, lng = lng e\<rparr> \<lparr>lat = la, lng = lo\<rparr> = NaN \<longrightarrow>
      fst (onMapClick e (snd (setTarget (JNum la) (JNum lo) OptsMissing s))) \<noteq> Returned \<and>
      open_popup (mapL (snd (onMapClick e (snd (setTarget (JNum la) (JNum lo) OptsMissing s))))) =
        open_popup (mapL s)) \<and>
   title_of (distanceMeters \<lparr>lat = lat e, lng = lng e\<rparr> \<lparr>lat = la, lng = lo\<rparr>) None
     \<in> {''FOUND!'', ''Very Hot'', ''Warm'', ''Cold''} \<and>
   (\<forall>oa. TARGET (snd (setTarget (JNum la) (JNum lo) oa s)) = \<lparr>lat = la, lng = lo\<rparr> \<and>
         lastMarker (snd (setTarget (JNum la) (JNum lo) oa s)) = None \<and>
         lastCircle (snd (setTarget (JNum la) (JNum lo) oa s)) = None \<and>
         prevDistance (snd (setTarget (JNum la) (JNum lo) oa s)) = None)"
proof -
  define s' where "s' = snd (setTarget (JNum la) (JNum lo) OptsMissing s)"
  define d where "d = distanceMeters \<lparr>lat = lat e, lng = lng e\<rparr> \<lparr>lat = la, lng = lo\<rparr>"
  have fields: "\<forall>oa. TARGET (snd (setTarget (JNum la) (JNum lo) oa s)) = \<lparr>lat = la, lng = lo\<rparr> \<and>
         lastMarker (snd (setTarget (JNum la) (JNum lo) oa s)) = None \<and>
         lastCircle (snd (setTarget (JNum la) (JNum lo) oa s)) = None \<and>
         prevDistance (snd (setTarget (JNum la) (JNum lo) oa s)) = None"
    by (simp add: setTarget_numeric_fields)
  have mine: "TARGET s' = \<lparr>lat = la, lng = lo\<rparr>" "lastMarker s' = None" "lastCircle s' = None"
    "prevDistance s' = None"
    unfolding s'_def by (simp_all add: setTarget_numeric_fields)
  have removed: "\<forall>l. lastMarker s = Some l \<or> lastCircle s = Some l \<longrightarrow>
        ident l \<notin> ident ` set (layers (mapL s'))"
    unfolding s'_def using cleared_map_removed [of s] by (simp add: setTarget_numeric)
  have kept: "set (layers (mapL s')) \<subseteq> set (layers (mapL s))"
    unfolding s'_def using cleared_map_subset [of s] by (simp add: setTarget_numeric)
  have same_popup: "open_popup (mapL s') = open_popup (mapL s)"
    unfolding s'_def
    by (cases "lastMarker s"; cases "lastCircle s")
       (simp_all add: setTarget_numeric cleared_map_def removeLayer_def Let_def)
  have shown: "fst (onMapClick e s') = Returned \<and>
      open_popup (mapL (snd (onMapClick e s'))) =
        Some \<lparr>p_latlng = \<lparr>lat = lat e, lng = lng e\<rparr>,
              p_content = content_of (title_of d None) (body_of d \<lparr>lat = la, lng = lo\<rparr>)\<rparr>"
    if "d \<noteq> NaN"
    using that onMapClick_returns(1,3) [of e s'] unfolding d_def by (simp add: mine)
  have silent: "fst (onMapClick e s') \<noteq> Returned \<and>
      open_popup (mapL (snd (onMapClick e s'))) = open_popup (mapL s)"
    if "d = NaN"
    using that onMapClick_throws(1,3) [of e s'] unfolding d_def by (simp add: mine same_popup)
  have returned: "fst (setTarget (JNum la) (JNum lo) OptsMissing s) = Returned"
    by (simp add: setTarget_numeric)
  show ?thesis
    unfolding s'_def [symmetric] d_def [symmetric]
    using fields mine removed kept shown silent returned title_of_first_guess [of d]
    by blast
qed

theorem setTarget_resets_game_witness:
  \<open>lastMarker (snd (onMapClick \<lparr>lat = Fin 1, lng = Fin 1\<rparr> (init \<lparr>lat = Fin 0, lng = Fin 0\<rparr>))) \<noteq> None \<and>
   prevDistance (snd (onMapClick \<lparr>lat = Fin 0, lng = Fin 0\<rparr>
      ((init \<lparr>lat = Fin 0, lng = Fin 0\<rparr>)\<lparr>TARGET := \<lparr>lat = Fin 0, lng = Fin 0\<rparr>\<rparr>))) = Some (Fin 0) \<and>
   map ident (layers (mapL (snd (onMapClick \<lparr>lat = Fin 0, lng = Fin 0\<rparr>
      ((init \<lparr>lat = Fin 0, lng = Fin 0\<rparr>)\<lparr>TARGET := \<lparr>lat = Fin 0, lng = Fin 0\<rparr>\<rparr>))))) = [0, 1, 2] \<and>
   map ident (layers (mapL (snd (setTarget (JNum (Fin 0)) (JNum (Fin 0)) OptsMissing
      (snd (onMapClick \<lparr>lat = Fin 0, lng = Fin 0\<rparr>
        ((init \<lparr>lat = Fin 0, lng = Fin 0\<rparr>)\<lparr>TARGET := \<lparr>lat = Fin 0, lng = Fin 0\<rparr>\<rparr>))))))) = [0] \<and>
   prevDistance (snd (setTarget (JNum (Fin 0)) (JNum (Fin 0)) OptsMissing
      (snd (onMapClick \<lparr>lat = Fin 0, lng = Fin 0\<rparr>
        ((init \<lparr>lat = Fin 0, lng = Fin 0\<rparr>)\<lparr>TARGET := \<lparr>lat = Fin 0, lng = Fin 0\<rparr>\<rparr>))))) = None \<and>
   map_option p_content (open_popup (mapL (snd (onMapClick \<lparr>lat = Fin 0, lng = Fin 180\<rparr>
      (snd (setTarget (JNum (Fin 0)) (JNum (Fin 0)) OptsMissing
        (snd (onMapClick \<lparr>lat = Fin 0, lng = Fin 0\<rparr>
          ((init \<lparr>lat = Fin 0, lng = Fin 0\<rparr>)\<lparr>TARGET := \<lparr>lat = Fin 0, lng = Fin 0\<rparr>\<rparr>))))))))) =
     Some (Some ''<strong>Cold</strong>'')\<close>
proof -
  define s0 where "s0 = (init \<lparr>lat = Fin 0, lng = Fin 0\<rparr>)\<lparr>TARGET := \<lparr>lat = Fin 0, lng = Fin 0\<rparr>\<rparr>"
  define s where "s = snd (onMapClick \<lparr>lat = Fin 0, lng = Fin 0\<rparr> s0)"
  have far: "\<not> n_le (Fin (6371000 * pi)) FOUND_RADIUS_METERS"
    using far_from_found by (simp add: FOUND_RADIUS_METERS_def)
  have hot: "n_ge (Fin (6371000 * pi)) HOT_RADIUS_METERS"
    using pi_ge_two by (simp add: HOT_RADIUS_METERS_def n_ge_def)
  have cold: "title_of (Fin (6371000 * pi)) None = ''Cold''"
    by (simp add: title_of_first [OF far] heat_of_far [OF hot] n_ge_def)
  have d0: "distanceMeters \<lparr>lat = Fin 0, lng = Fin 0\<rparr> \<lparr>lat = Fin 0, lng = Fin 0\<rparr> = Fin 0"
    by (simp add: distanceMeters_self finite_latlng_def)
  have 0: "lastMarker (snd (onMapClick \<lparr>lat = Fin 1, lng = Fin 1\<rparr> (init \<lparr>lat = Fin 0, lng = Fin 0\<rparr>))) \<noteq> None"
    by (simp add: onMapClick_def Let_def invalid_LatLng_def)
  have 1: "prevDistance s = Some (Fin 0)" "map ident (layers (mapL s)) = [0, 1, 2]"
    by (simp_all add: s_def s0_def onMapClick_def init_def Let_def addTo_def openOn_def d0
          invalid_LatLng_def Math_min_def Math_max_def)
  have 2: "map ident (layers (mapL (snd (setTarget (JNum (Fin 0)) (JNum (Fin 0)) OptsMissing s)))) = [0]"
    by (simp add: setTarget_numeric cleared_map_def s_def s0_def onMapClick_def init_def Let_def
          addTo_def openOn_def removeLayer_def d0 invalid_LatLng_def Math_min_def Math_max_def)
  have 3: "prevDistance (snd (setTarget (JNum (Fin 0)) (JNum (Fin 0)) OptsMissing s)) = None \<and>
    map_option p_content (open_popup (mapL (snd (onMapClick \<lparr>lat = Fin 0, lng = Fin 180\<rparr>
      (snd (setTarget (JNum (Fin 0)) (JNum (Fin 0)) OptsMissing s)))))) =
     Some (Some ''<strong>Cold</strong>'')"
    using setTarget_resets_game [where la = "Fin 0" and lo = "Fin 0" and s = s
            and e = "\<lparr>lat = Fin 0, lng = Fin 180\<rparr>"]
    by (simp add: distance_half_turn cold content_of_not_found [OF far])
  from 0 1 2 3 show ?thesis unfolding s_def s0_def by blast
qed

text \<open>
  Claim C10. \<open>NaN\<close> has type number, so \<open>setTarget(lat, lng)\<close> with \<open>lat\<close> or \<open>lng\<close>
  \<open>NaN\<close> is not rejected: no warning is logged, \<open>TARGET\<close> becomes the coordinate with
  the \<open>NaN\<close>, and \<open>prevDistance\<close> and the overlays are cleared, exactly as for a finite
  coordinate (the resulting state differs from that one in \<open>TARGET\<close> only).
\<close>

theorem setTarget_accepts_NaN:
  "la = NaN \<or> lo = NaN \<Longrightarrow>
   typeof (JNum la) = ''number'' \<and> typeof (JNum lo) = ''number'' \<and>
   fst (setTarget (JNum la) (JNum lo) OptsMissing s) = Returned \<and>
   TARGET (snd (setTarget (JNum la) (JNum lo) OptsMissing s)) = \<lparr>lat = la, lng = lo\<rparr> \<and>
   prevDistance (snd (setTarget (JNum la) (JNum lo) OptsMissing s)) = None \<and>
   lastMarker (snd (setTarget (JNum la) (JNum lo) OptsMissing s)) = None \<and>
   lastCircle (snd (setTarget (JNum la) (JNum lo) OptsMissing s)) = None \<and>
   console (snd (setTarget (JNum la) (JNum lo) OptsMissing s)) = console s \<and>
   (\<forall>l. lastMarker s = Some l \<or> lastCircle s = Some l \<longrightarrow>
        ident l \<notin> ident ` set (layers (mapL (snd (setTarget (JNum la) (JNum lo) OptsMissing s))))) \<and>
   snd (setTarget (JNum la) (JNum lo) OptsMissing s) =
     (snd (setTarget (JNum (Fin x)) (JNum (Fin y)) OptsMissing s))\<lparr>TARGET := \<lparr>lat = la, lng = lo\<rparr>\<rparr>"
  using cleared_map_removed [of s]
  by (simp add: setTarget_numeric)

theorem setTarget_accepts_NaN_witness:
  "setTarget (JNum NaN) (JNum (Fin 35)) OptsMissing
      ((init \<lparr>lat = Fin 0, lng = Fin 0\<rparr>)\<lparr>prevDistance := Some (Fin 500)\<rparr>) =
    (Returned, (init \<lparr>lat = Fin 0, lng = Fin 0\<rparr>)\<lparr>TARGET := \<lparr>lat = NaN, lng = Fin 35\<rparr>\<rparr>)"
  using setTarget_accepts_NaN [of NaN "Fin 35" "(init \<lparr>lat = Fin 0, lng = Fin 0\<rparr>)\<lparr>prevDistance := Some (Fin 500)\<rparr>" 0 0]
  by (simp add: setTarget_numeric cleared_map_def init_def Let_def)

section \<open>The text of numbers\<close>
















section \<open>The colour of a guess\<close>

lemma Math_round_Fin: "Math_round (Fin y) = Fin (of_int \<lfloor>y + 1 / 2\<rfloor>)"
  by simp

lemma round_nearest:
  fixes x :: real
  shows "\<bar>of_int \<lfloor>x + 1 / 2\<rfloor> - x\<bar> \<le> 1 / 2"
  by linarith

lemma colour_constants:
  "cold = \<lparr>r = Fin 44, g = Fin 152, b = Fin 240\<rparr>" "hot = \<lparr>r = Fin 226, g = Fin 75, b = Fin 75\<rparr>"
  by (simp_all add: cold_def hot_def)

lemma lerpColor_channels:
  "lerpColor t =
     template [Some ''rgb('', ToString (channel r t), Some '','', ToString (channel g t),
               Some '','', ToString (channel b t), Some '')'']"
  by (simp only: lerpColor_def channel_def Let_def)

lemma channel_Fin:
  "channel r (Fin t) = Fin (of_int \<lfloor>44 + (226 - 44) * t + 1 / 2\<rfloor>)"
  "channel g (Fin t) = Fin (of_int \<lfloor>152 + (75 - 152) * t + 1 / 2\<rfloor>)"
  "channel b (Fin t) = Fin (of_int \<lfloor>240 + (75 - 240) * t + 1 / 2\<rfloor>)"
  by (simp_all add: channel_def cold_def hot_def n_sub_def)

lemma lerpColor_cold: "lerpColor (Fin 0) = Some ''rgb(44,152,240)''"
  by (simp add: lerpColor_channels channel_Fin decimal_eval)

lemma lerpColor_hot: "lerpColor (Fin 1) = Some ''rgb(226,75,75)''"
  by (simp add: lerpColor_channels channel_Fin decimal_eval)

lemma ToString_int:
  "0 \<le> k \<Longrightarrow> k < 2 ^ 53 \<Longrightarrow> ToString (Fin (of_int k)) = Some (decimal (nat k))"
proof -
  assume k: "0 \<le> k" "k < 2 ^ 53"
  then have "\<bar>of_int k :: real\<bar> < 2 ^ 53"
    by (metis abs_of_nonneg of_int_0_le_iff of_int_less_numeral_power_cancel_iff)
  moreover have "\<not> (of_int k :: real) < 0" using k by simp
  ultimately show ?thesis by simp
qed

lemma ToString_byte:
  assumes "0 \<le> k" "k \<le> 255"
  shows "ToString (Fin (of_int k)) = Some (decimal (nat k))"
proof -
  have "(255::int) < 2 ^ 53" by simp
  with assms(2) have "k < 2 ^ 53" by (rule le_less_trans)
  with assms(1) show ?thesis by (rule ToString_int)
qed

lemma channel_unit:
  fixes x :: real
  assumes "0 \<le> x" "x \<le> 1"
  shows "\<exists>k. 44 \<le> k \<and> k \<le> 226 \<and> channel r (Fin x) = Fin (of_int k)"
    and "\<exists>k. 75 \<le> k \<and> k \<le> 152 \<and> channel g (Fin x) = Fin (of_int k)"
    and "\<exists>k. 75 \<le> k \<and> k \<le> 240 \<and> channel b (Fin x) = Fin (of_int k)"
proof -
  have "44 \<le> \<lfloor>44 + (226 - 44) * x + 1 / 2\<rfloor>" "\<lfloor>44 + (226 - 44) * x + 1 / 2\<rfloor> \<le> 226"
    using assms by (simp_all add: le_floor_iff floor_le_iff)
  then show "\<exists>k. 44 \<le> k \<and> k \<le> 226 \<and> channel r (Fin x) = Fin (of_int k)"
    unfolding channel_Fin by blast
  have "75 \<le> \<lfloor>152 + (75 - 152) * x + 1 / 2\<rfloor>" "\<lfloor>152 + (75 - 152) * x + 1 / 2\<rfloor> \<le> 152"
    using assms by (simp_all add: le_floor_iff floor_le_iff)
  then show "\<exists>k. 75 \<le> k \<and> k \<le> 152 \<and> channel g (Fin x) = Fin (of_int k)"
    unfolding channel_Fin by blast
  have "75 \<le> \<lfloor>240 + (75 - 240) * x + 1 / 2\<rfloor>" "\<lfloor>240 + (75 - 240) * x + 1 / 2\<rfloor> \<le> 240"
    using assms by (simp_all add: le_floor_iff floor_le_iff)
  then show "\<exists>k. 75 \<le> k \<and> k \<le> 240 \<and> channel b (Fin x) = Fin (of_int k)"
    unfolding channel_Fin by blast
qed

lemma lerpColor_unit:
  fixes x :: real
  assumes "0 \<le> x" "x \<le> 1"
  shows "\<exists>kr kg kb. 44 \<le> kr \<and> kr \<le> 226 \<and> 75 \<le> kg \<and> kg \<le> 152 \<and> 75 \<le> kb \<and> kb \<le> 240 \<and>
           channel r (Fin x) = Fin (of_int kr) \<and> channel g (Fin x) = Fin (of_int kg) \<and>
           channel b (Fin x) = Fin (of_int kb) \<and>
           lerpColor (Fin x) =
             Some (''rgb('' @ decimal (nat kr) @ '','' @ decimal (nat kg) @ '','' @
                   decimal (nat kb) @ '')'')"
proof -
  obtain kr where kr: "44 \<le> kr" "kr \<le> 226" "channel r (Fin x) = Fin (of_int kr)"
    using channel_unit(1) [OF assms] by blast
  obtain kg where kg: "75 \<le> kg" "kg \<le> 152" "channel g (Fin x) = Fin (of_int kg)"
    using channel_unit(2) [OF assms] by blast
  obtain kb where kb: "75 \<le> kb" "kb \<le> 240" "channel b (Fin x) = Fin (of_int kb)"
    using channel_unit(3) [OF assms] by blast
  have sr: "ToString (Fin (of_int kr)) = Some (decimal (nat kr))"
    using kr by (intro ToString_byte) linarith+
  have sg: "ToString (Fin (of_int kg)) = Some (decimal (nat kg))"
    using kg by (intro ToString_byte) linarith+
  have sb: "ToString (Fin (of_int kb)) = Some (decimal (nat kb))"
    using kb by (intro ToString_byte) linarith+
  have "lerpColor (Fin x) =
     Some (''rgb('' @ decimal (nat kr) @ '','' @ decimal (nat kg) @ '','' @ decimal (nat kb) @ '')'')"
    unfolding lerpColor_channels kr(3) kg(3) kb(3) sr sg sb by simp
  with kr kg kb show ?thesis by blast
qed

lemma heat_of_range: "heat_of d = NaN \<or> (\<exists>h. 0 \<le> h \<and> h \<le> 1 \<and> heat_of d = Fin h)"
  by (cases d) (auto simp add: heat_of_def HOT_RADIUS_METERS_def Math_min_def Math_max_def n_sub_def Let_def)

lemma lerpColor_NaN: "lerpColor NaN = Some ''rgb(NaN,NaN,NaN)''"
  by (simp add: lerpColor_channels channel_def cold_def hot_def n_sub_def)

lemma lerpColor_heat_modelled: "\<exists>c. lerpColor (heat_of d) = Some c"
proof -
  consider "heat_of d = NaN" | h where "0 \<le> h" "h \<le> 1" "heat_of d = Fin h"
    using heat_of_range [of d] by blast
  then show ?thesis
  proof cases
    case 1
    then show ?thesis by (simp add: lerpColor_NaN)
  next
    case 2
    then show ?thesis using lerpColor_unit [of h] by auto
  qed
qed

lemma onMapClick_drawn:
  assumes "distanceMeters \<lparr>lat = lat e, lng = lng e\<rparr> (TARGET s) \<noteq> NaN"
  shows "map_option layer_color (lastMarker (snd (onMapClick e s))) =
           Some (lerpColor (heat_of (distanceMeters \<lparr>lat = lat e, lng = lng e\<rparr> (TARGET s))))"
    and "map_option layer_color (lastCircle (snd (onMapClick e s))) =
           Some (lerpColor (heat_of (distanceMeters \<lparr>lat = lat e, lng = lng e\<rparr> (TARGET s))))"
    and "the (lastMarker (snd (onMapClick e s))) \<in> set (layers (mapL (snd (onMapClick e s))))"
    and "the (lastCircle (snd (onMapClick e s))) \<in> set (layers (mapL (snd (onMapClick e s))))"
  using assms distance_known_valid [OF assms]
  by (simp_all add: onMapClick_def Let_def ringRadius_NaN addTo_def openOn_def)

text \<open>
  Claim C8. \<open>lerpColor(t)\<close> prints the three channels \<open>cold + (hot - cold) * t\<close>, each
  rounded by \<open>Math.round\<close> to the nearest integer (the larger one at a tie), between
  the cold colour \<open>#2c98f0\<close> = (44, 152, 240) and the hot colour \<open>#e24b4b\<close> =
  (226, 75, 75); at \<open>t = 0\<close> it is the cold colour exactly and at \<open>t = 1\<close> the hot
  colour exactly, and for every \<open>t\<close> between 0 and 1 each channel is an integer
  between its cold and its hot value, printed as its decimal numeral. A guess whose
  distance is a number draws the marker with this colour, at the heat of the guess, as
  fill colour and the ring with it as line colour.
\<close>

theorem lerpColor_interpolates:
  "lerpColor t =
     template [Some ''rgb('', ToString (channel r t), Some '','', ToString (channel g t),
               Some '','', ToString (channel b t), Some '')''] \<and>
   channel c t = Math_round (n_add (c cold) (n_mul (n_sub (c hot) (c cold)) t)) \<and>
   cold = \<lparr>r = Fin 44, g = Fin 152, b = Fin 240\<rparr> \<and>
   hot = \<lparr>r = Fin 226, g = Fin 75, b = Fin 75\<rparr> \<and>
   Math_round (Fin y) = Fin (of_int \<lfloor>y + 1 / 2\<rfloor>) \<and>
   \<bar>of_int \<lfloor>y + 1 / 2\<rfloor> - y\<bar> \<le> 1 / 2 \<and>
   lerpColor (Fin 0) = Some ''rgb(44,152,240)'' \<and>
   lerpColor (Fin 1) = Some ''rgb(226,75,75)'' \<and>
   (0 \<le> x \<and> x \<le> 1 \<longrightarrow>
      (\<exists>kr kg kb. 44 \<le> kr \<and> kr \<le> 226 \<and> 75 \<le> kg \<and> kg \<le> 152 \<and> 75 \<le> kb \<and> kb \<le> 240 \<and>
         channel r (Fin x) = Fin (of_int kr) \<and> channel g (Fin x) = Fin (of_int kg) \<and>
         channel b (Fin x) = Fin (of_int kb) \<and>
         lerpColor (Fin x) =
           Some (''rgb('' @ decimal (nat kr) @ '','' @ decimal (nat kg) @ '','' @
                 decimal (nat kb) @ '')''))) \<and>
   (distanceMeters \<lparr>lat = lat e, lng = lng e\<rparr> (TARGET s) \<noteq> NaN \<longrightarrow>
      map_option layer_color (lastMarker (snd (onMapClick e s))) =
        Some (lerpColor (heat_of (distanceMeters \<lparr>lat = lat e, lng = lng e\<rparr> (TARGET s)))) \<and>
      map_option layer_color (lastCircle (snd (onMapClick e s))) =
        Some (lerpColor (heat_of (distanceMeters \<lparr>lat = lat e, lng = lng e\<rparr> (TARGET s)))) \<and>
      the (lastMarker (snd (onMapClick e s))) \<in> set (layers (mapL (snd (onMapClick e s)))) \<and>
      the (lastCircle (snd (onMapClick e s))) \<in> set (layers (mapL (snd (onMapClick e s)))))"
proof -
  have 1: "lerpColor t =
     template [Some ''rgb('', ToString (channel r t), Some '','', ToString (channel g t),
               Some '','', ToString (channel b t), Some '')'']"
    by (rule lerpColor_channels)
  have 2: "channel c t = Math_round (n_add (c cold) (n_mul (n_sub (c hot) (c cold)) t))"
    by (rule channel_def)
  show ?thesis
    using 1 2 colour_constants Math_round_Fin [of y] round_nearest [of y]
      lerpColor_cold lerpColor_hot lerpColor_unit [of x] onMapClick_drawn [of e s]
    by blast
qed

theorem lerpColor_interpolates_witness:
  "(0::real) \<le> 1 / 2 \<and> (1 / 2 :: real) \<le> 1 \<and>
   lerpColor (Fin (1 / 2)) = Some ''rgb(135,114,158)'' \<and>
   channel r (Fin (1 / 2)) = Fin 135 \<and> channel g (Fin (1 / 2)) = Fin 114 \<and>
   channel b (Fin (1 / 2)) = Fin 158 \<and>
   distanceMeters \<lparr>lat = Fin 0, lng = Fin 0\<rparr>
      (TARGET ((init \<lparr>lat = Fin 0, lng = Fin 0\<rparr>)\<lparr>TARGET := \<lparr>lat = Fin 0, lng = Fin 0\<rparr>\<rparr>)) \<noteq> NaN \<and>
   map_option layer_color (lastMarker (snd (onMapClick \<lparr>lat = Fin 0, lng = Fin 0\<rparr>
      ((init \<lparr>lat = Fin 0, lng = Fin 0\<rparr>)\<lparr>TARGET := \<lparr>lat = Fin 0, lng = Fin 0\<rparr>\<rparr>)))) =
     Some (Some ''rgb(226,75,75)'') \<and>
   distanceMeters \<lparr>lat = Fin 0, lng = Fin 180\<rparr>
      (TARGET ((init \<lparr>lat = Fin 0, lng = Fin 0\<rparr>)\<lparr>TARGET := \<lparr>lat = Fin 0, lng = Fin 0\<rparr>\<rparr>)) \<noteq> NaN \<and>
   map_option layer_color (lastCircle (snd (onMapClick \<lparr>lat = Fin 0, lng = Fin 180\<rparr>
      ((init \<lparr>lat = Fin 0, lng = Fin 0\<rparr>)\<lparr>TARGET := \<lparr>lat = Fin 0, lng = Fin 0\<rparr>\<rparr>)))) =
     Some (Some ''rgb(44,152,240)'')"
proof -
  have hot: "n_ge (Fin (6371000 * pi)) HOT_RADIUS_METERS"
    using pi_ge_two by (simp add: HOT_RADIUS_METERS_def n_ge_def)
  note unit_and_click =
    lerpColor_interpolates [where t = "Fin (1 / 2)" and x = "1 / 2" and y = "5 / 2" and c = r
      and e = "\<lparr>lat = Fin 0, lng = Fin 0\<rparr>"
      and s = "(init \<lparr>lat = Fin 0, lng = Fin 0\<rparr>)\<lparr>TARGET := \<lparr>lat = Fin 0, lng = Fin 0\<rparr>\<rparr>",
      THEN conjunct2, THEN conjunct2, THEN conjunct2, THEN conjunct2, THEN conjunct2,
      THEN conjunct2, THEN conjunct2, THEN conjunct2]
  note far_click =
    lerpColor_interpolates [where t = "Fin (1 / 2)" and x = "1 / 2" and y = "5 / 2" and c = r
      and e = "\<lparr>lat = Fin 0, lng = Fin 180\<rparr>"
      and s = "(init \<lparr>lat = Fin 0, lng = Fin 0\<rparr>)\<lparr>TARGET := \<lparr>lat = Fin 0, lng = Fin 0\<rparr>\<rparr>",
      THEN conjunct2, THEN conjunct2, THEN conjunct2, THEN conjunct2, THEN conjunct2,
      THEN conjunct2, THEN conjunct2, THEN conjunct2, THEN conjunct2]
  show ?thesis
    using unit_and_click far_click
    by (simp add: distanceMeters_self finite_latlng_def distance_half_turn heat_of_zero
          heat_of_far [OF hot] decimal_eval lerpColor_cold lerpColor_hot channel_Fin lerpColor_channels
          del: layer_color.simps)
qed

end
